theory Spec2Isabelle
  imports Complex_Main "HOL-Library.Multiset" "HOL-Library.Option_ord"
begin

section \<open>Data model of \<open>scripts/data_processor.py\<close>\<close>

text \<open>
  The script works on a pandas DataFrame with the eight columns named in \<open>usecols\<close>.
  A cell may be missing (NaN): it is \<open>None\<close>. \<open>Model Year\<close> is read as \<open>int16\<close>,
  so its values are integers; \<open>Electric Range\<close> is a \<open>float32\<close>, taken here as a real
  number (rounding is not modelled). The six remaining columns have dtype \<open>category\<close>:
  beside its cells, such a column carries the list of its categories, which filtering
  rows does not change.
\<close>

datatype exn = FileNotFoundError | ValueError | TypeError | KeyError | RuntimeError

record row =
  State :: "string option"
  Model_Year :: "int option"
  Make :: "string option"
  Model :: "string option"
  County :: "string option"
  City :: "string option"
  Electric_Vehicle_Type :: "string option"
  Electric_Range :: "real option"

datatype catcol = Col_State | Col_Make | Col_Model | Col_County | Col_City | Col_Type

fun cell :: "catcol \<Rightarrow> row \<Rightarrow> string option" where
  "cell Col_State r = State r"
| "cell Col_Make r = Make r"
| "cell Col_Model r = Model r"
| "cell Col_County r = County r"
| "cell Col_City r = City r"
| "cell Col_Type r = Electric_Vehicle_Type r"

text \<open>A frame: the rows with their index labels, in order, and the categories.\<close>

record dataframe =
  rows :: "(nat \<times> row) list"
  categories :: "catcol \<Rightarrow> string list"

definition len :: "dataframe \<Rightarrow> nat" where
  "len df = length (rows df)"

subsection \<open>\<open>load_data\<close>\<close>

definition isnull :: "row \<Rightarrow> bool" where
  "isnull r \<longleftrightarrow>
     State r = None \<or> Model_Year r = None \<or> Make r = None \<or> Model r = None \<or>
     County r = None \<or> City r = None \<or> Electric_Vehicle_Type r = None \<or>
     Electric_Range r = None"

definition dropna :: "dataframe \<Rightarrow> dataframe" where
  "dropna df = df\<lparr>rows := filter (\<lambda>(i, r). \<not> isnull r) (rows df)\<rparr>"

definition reset_index :: "dataframe \<Rightarrow> dataframe" where
  "reset_index df = df\<lparr>rows := zip [0..<length (rows df)] (map snd (rows df))\<rparr>"

text \<open>\<open>df[df['State'] == s]\<close>: a missing cell compares unequal.\<close>

definition state_eq :: "string \<Rightarrow> dataframe \<Rightarrow> dataframe" where
  "state_eq s df = df\<lparr>rows := filter (\<lambda>(i, r). State r = Some s) (rows df)\<rparr>"

datatype log_entry =
    Info_loaded string nat nat
  | Info_dropped nat
  | Info_filtered nat
  | Info_saved string
  | Error_loading exn
  | Error_no_input_folder
  | Print_forecast

text \<open>
  \<open>pd.read_csv\<close> is the library's: \<open>read_csv path\<close> is what the call with the script's
  \<open>usecols\<close> and \<open>dtype\<close> returns, a frame or the exception it raises (a missing file, a
  missing column, a value that does not fit its dtype). \<open>load_data\<close> returns the frame,
  or \<open>None\<close>, with the lines it logs.
\<close>

definition load_data ::
  "(string \<Rightarrow> exn + dataframe) \<Rightarrow> string \<Rightarrow> dataframe option \<times> log_entry list" where
  "load_data read_csv file_path =
     (case read_csv file_path of
        Inl e \<Rightarrow> (None, [Error_loading e])
      | Inr df0 \<Rightarrow>
          (let df1 = reset_index (dropna df0);
               df2 = reset_index (state_eq ''WA'' df1)
           in (Some df2,
               [Info_loaded file_path (len df0) 8, Info_dropped (len df1),
                Info_filtered (len df2)])))"

subsection \<open>Series operations used by the aggregations\<close>

text \<open>\<open>unique\<close>: the distinct values in order of first appearance.\<close>

definition unique :: "'a list \<Rightarrow> 'a list" where
  "unique xs = rev (remdups (rev xs))"

text \<open>
  \<open>sort_values(ascending=False)\<close>, as pandas does it with a stable kind: reverse, sort
  ascending, reverse; entries of equal value keep their order. None of the results below
  depends on the order of equal values.
\<close>

definition sort_values_desc :: "('k \<times> 'v::linorder) list \<Rightarrow> ('k \<times> 'v) list" where
  "sort_values_desc s = rev (sort_key snd (rev s))"

text \<open>The same for values that may be NaN: those come last.\<close>

definition sort_values_desc_na :: "('k \<times> 'v::linorder option) list \<Rightarrow> ('k \<times> 'v option) list" where
  "sort_values_desc_na s =
     map (\<lambda>(k, v). (k, Some v))
       (sort_values_desc (List.map_filter (\<lambda>(k, v). map_option (Pair k) v) s))
     @ filter (\<lambda>(k, v). v = None) s"

definition sort_index :: "('k::linorder \<times> 'v) list \<Rightarrow> ('k \<times> 'v) list" where
  "sort_index s = sort_key fst s"

definition head :: "nat \<Rightarrow> 'a list \<Rightarrow> 'a list" where
  "head n s = take n s"

text \<open>\<open>df['Model Year']\<close> and a categorical column, as value_counts sees them (NaN dropped).\<close>

definition model_years :: "dataframe \<Rightarrow> int list" where
  "model_years df = List.map_filter (\<lambda>(i, r). Model_Year r) (rows df)"

definition column :: "dataframe \<Rightarrow> catcol \<Rightarrow> string list" where
  "column df c = List.map_filter (\<lambda>(i, r). cell c r) (rows df)"

text \<open>\<open>df['Model Year'].value_counts()\<close>: one entry per distinct year.\<close>

definition value_counts_year :: "dataframe \<Rightarrow> (int \<times> nat) list" where
  "value_counts_year df =
     sort_values_desc (map (\<lambda>y. (y, count_list (model_years df) y)) (unique (model_years df)))"

text \<open>
  \<open>value_counts()\<close> of a categorical column: one entry per category of the column, also
  for a category that no row has (count 0).
\<close>

definition category_counts :: "dataframe \<Rightarrow> catcol \<Rightarrow> (string \<times> nat) list" where
  "category_counts df c = map (\<lambda>k. (k, count_list (column df c) k)) (categories df c)"

definition value_counts :: "dataframe \<Rightarrow> catcol \<Rightarrow> (string \<times> nat) list" where
  "value_counts df c = sort_values_desc (category_counts df c)"

text \<open>\<open>df[df[c].isin(keys)]\<close>\<close>

definition isin :: "catcol \<Rightarrow> string list \<Rightarrow> dataframe \<Rightarrow> dataframe" where
  "isin c keys df =
     df\<lparr>rows := filter (\<lambda>(i, r). case cell c r of None \<Rightarrow> False | Some v \<Rightarrow> v \<in> set keys)
                   (rows df)\<rparr>"

text \<open>
  \<open>groupby([c1, c2], observed=True)\<close>: the groups of the pairs of categories that some
  row has, in the order of the categories.
\<close>

definition groupby2 :: "dataframe \<Rightarrow> catcol \<Rightarrow> catcol \<Rightarrow> ((string \<times> string) \<times> row list) list" where
  "groupby2 df c1 c2 =
     [((a, b), g).
        a \<leftarrow> categories df c1, b \<leftarrow> categories df c2,
        g \<leftarrow> [filter (\<lambda>r. cell c1 r = Some a \<and> cell c2 r = Some b) (map snd (rows df))],
        g \<noteq> []]"

definition size_groups :: "('k \<times> row list) list \<Rightarrow> ('k \<times> nat) list" where
  "size_groups gs = map (\<lambda>(k, g). (k, length g)) gs"

text \<open>\<open>mean()\<close> skips NaN; the mean of no value is NaN.\<close>

definition mean :: "real option list \<Rightarrow> real option" where
  "mean vs =
     (let xs = List.map_filter (\<lambda>v. v) vs
      in if xs = [] then None else Some (sum_list xs / real (length xs)))"

definition mean_range :: "('k \<times> row list) list \<Rightarrow> ('k \<times> real option) list" where
  "mean_range gs = map (\<lambda>(k, g). (k, mean (map Electric_Range g))) gs"

text \<open>\<open>groupby('Model Year')\<close>: the groups by year, ascending.\<close>

definition groupby_year :: "dataframe \<Rightarrow> (int \<times> row list) list" where
  "groupby_year df =
     map (\<lambda>y. (y, filter (\<lambda>r. Model_Year r = Some y) (map snd (rows df))))
       (sort (unique (model_years df)))"

text \<open>The label shown on the horizontal bars: \<open>x[:12] + '...' if len(x) > 12 else x\<close>.\<close>

definition display_label :: "string \<Rightarrow> string" where
  "display_label x = (if length x > 12 then take 12 x @ ''...'' else x)"

subsection \<open>\<open>forecast_future_registrations\<close>\<close>

text \<open>
  \<open>Model Year\<close> has dtype \<open>int16\<close>, and so has the index of its value counts: the
  subtraction \<open>filtered_years.index - filtered_years.index.min()\<close> is a 16-bit one.
\<close>

definition int16 :: "int \<Rightarrow> int" where
  "int16 n = (n + 32768) mod 65536 - 32768"

definition ev_registration_counts :: "dataframe \<Rightarrow> (int \<times> nat) list" where
  "ev_registration_counts df = sort_index (value_counts_year df)"

text \<open>\<open>ev_registration_counts[ev_registration_counts.index <= 2023]\<close>\<close>

definition filtered_years :: "dataframe \<Rightarrow> (int \<times> nat) list" where
  "filtered_years df = filter (\<lambda>(y, n). y \<le> 2023) (ev_registration_counts df)"

text \<open>\<open>index.min()\<close>: NaN (\<open>None\<close>) for an empty index.\<close>

definition index_min :: "(int \<times> nat) list \<Rightarrow> int option" where
  "index_min s = (if s = [] then None else Some (Min (set (map fst s))))"

definition x_data :: "(int \<times> nat) list \<Rightarrow> int list" where
  "x_data s = (case index_min s of None \<Rightarrow> [] | Some m \<Rightarrow> map (\<lambda>(y, n). int16 (y - m)) s)"

definition y_data :: "(int \<times> nat) list \<Rightarrow> nat list" where
  "y_data s = map snd s"

definition exp_growth :: "real \<Rightarrow> real \<Rightarrow> real \<Rightarrow> real" where
  "exp_growth x a b = a * exp (b * x)"

text \<open>
  \<open>curve_fit\<close> is scipy's: given the sample, it returns the two parameters or raises.
  The forecast is a dict, here the list of its items in insertion order. Its keys are
  \<open>forecast_years + filtered_years.index.min()\<close> and its values
  \<open>exp_growth(forecast_years, a, b)\<close>, with
  \<open>forecast_years = np.arange(2024, 2030) - filtered_years.index.min()\<close> in 64 bits;
  all of them are NaN (\<open>None\<close>) when the minimum is.
\<close>

type_synonym forecast = "(int option \<times> real option) list"

definition forecast_future_registrations ::
  "((int \<times> nat) list \<Rightarrow> exn + real \<times> real) \<Rightarrow> dataframe \<Rightarrow> exn + forecast" where
  "forecast_future_registrations curve_fit df =
     (let filtered = filtered_years df
      in case curve_fit (zip (x_data filtered) (y_data filtered)) of
           Inl e \<Rightarrow> Inl e
         | Inr (a, b) \<Rightarrow>
             Inr (map (\<lambda>year.
                         case index_min filtered of
                           None \<Rightarrow> (None, None)
                         | Some m \<Rightarrow>
                             (Some ((year - m) + m),
                              Some (exp_growth (real_of_int (year - m)) a b)))
                    [2024..2029]))"

subsection \<open>Objects, the clock and the files written\<close>

text \<open>
  \<open>plot_all_charts\<close> receives a reference to the table and assigns to columns of frames
  it derives from it. The objects live in a heap, addressed by position; every pandas
  operation that returns a new object allocates one. A derived table is a frame with
  two categorical key columns and a value column.
\<close>

datatype obj =
    Frame dataframe
  | Count_table catcol catcol "((string \<times> string) \<times> nat) list"
  | Range_table catcol catcol "((string \<times> string) \<times> real option) list"

datatype chart =
    Bar_adoption "(int \<times> nat) list"
  | Barh_cities obj
  | Barh_types "(string \<times> nat) list"
  | Barh_makes "(string \<times> nat) list"
  | Barh_models obj
  | Line_range_by_year "(int \<times> real option) list"
  | Barh_range_models obj
  | Line_forecast "(int \<times> nat) list" "(int \<times> real option) list"

record world =
  heap :: "obj list"
  clock :: nat
  saved :: "(string \<times> chart) list"
  log :: "log_entry list"

definition alloc :: "obj \<Rightarrow> world \<Rightarrow> nat \<times> world" where
  "alloc ob w = (length (heap w), w\<lparr>heap := heap w @ [ob]\<rparr>)"

definition frame_at :: "world \<Rightarrow> nat \<Rightarrow> exn + dataframe" where
  "frame_at w a =
     (if a < length (heap w)
      then (case heap w ! a of Frame df \<Rightarrow> Inr df | _ \<Rightarrow> Inl TypeError)
      else Inl TypeError)"

fun set_cell :: "catcol \<Rightarrow> string option \<Rightarrow> row \<Rightarrow> row" where
  "set_cell Col_State v r = r\<lparr>State := v\<rparr>"
| "set_cell Col_Make v r = r\<lparr>Make := v\<rparr>"
| "set_cell Col_Model v r = r\<lparr>Model := v\<rparr>"
| "set_cell Col_County v r = r\<lparr>County := v\<rparr>"
| "set_cell Col_City v r = r\<lparr>City := v\<rparr>"
| "set_cell Col_Type v r = r\<lparr>Electric_Vehicle_Type := v\<rparr>"

definition relabel :: "catcol \<Rightarrow> catcol \<Rightarrow> catcol \<Rightarrow> (string \<Rightarrow> string) \<Rightarrow>
    ((string \<times> string) \<times> 'v) list \<Rightarrow> ((string \<times> string) \<times> 'v) list" where
  "relabel c c1 c2 f t =
     map (\<lambda>((a, b), v). ((if c = c1 then f a else a, if c = c2 then f b else b), v)) t"

text \<open>\<open>ob[c] = ob[c].astype(str).apply(f)\<close> on the object itself.\<close>

fun apply_column :: "catcol \<Rightarrow> (string \<Rightarrow> string) \<Rightarrow> obj \<Rightarrow> obj" where
  "apply_column c f (Frame df) =
     Frame (df\<lparr>rows := map (\<lambda>(i, r). (i, set_cell c (map_option f (cell c r)) r)) (rows df)\<rparr>)"
| "apply_column c f (Count_table c1 c2 t) = Count_table c1 c2 (relabel c c1 c2 f t)"
| "apply_column c f (Range_table c1 c2 t) = Range_table c1 c2 (relabel c c1 c2 f t)"

definition setitem :: "nat \<Rightarrow> catcol \<Rightarrow> (string \<Rightarrow> string) \<Rightarrow> world \<Rightarrow> world" where
  "setitem a c f w =
     (if a < length (heap w) then w\<lparr>heap := (heap w)[a := apply_column c f (heap w ! a)]\<rparr>
      else w)"

text \<open>\<open>ob.head(n).copy()\<close>: a new object.\<close>

fun head_copy :: "nat \<Rightarrow> obj \<Rightarrow> obj" where
  "head_copy n (Frame df) = Frame (df\<lparr>rows := head n (rows df)\<rparr>)"
| "head_copy n (Count_table c1 c2 t) = Count_table c1 c2 (head n t)"
| "head_copy n (Range_table c1 c2 t) = Range_table c1 c2 (head n t)"

text \<open>
  \<open>plt.savefig(filename)\<close> followed by the log line. Rendering takes time: the clock
  moves on by \<open>render_time filename\<close>.
\<close>

definition savefig :: "(string \<Rightarrow> nat) \<Rightarrow> string \<Rightarrow> chart \<Rightarrow> world \<Rightarrow> world" where
  "savefig render_time filename ch w =
     w\<lparr>saved := saved w @ [(filename, ch)],
       clock := clock w + render_time filename,
       log := log w @ [Info_saved filename]\<rparr>"

definition chart_file :: "string \<Rightarrow> string \<Rightarrow> string \<Rightarrow> string" where
  "chart_file output_prefix slug timestamp = output_prefix @ ''_'' @ slug @ ''_'' @ timestamp @ ''.png''"

subsection \<open>\<open>plot_all_charts\<close>\<close>

text \<open>The aggregations computed first, to be reused (lines 54 to 61).\<close>

definition ev_adoption_by_year :: "dataframe \<Rightarrow> (int \<times> nat) list" where
  "ev_adoption_by_year df = sort_index (value_counts_year df)"

definition ev_county_distribution :: "dataframe \<Rightarrow> (string \<times> nat) list" where
  "ev_county_distribution df = value_counts df Col_County"

definition top_counties :: "dataframe \<Rightarrow> string list" where
  "top_counties df = map fst (head 3 (ev_county_distribution df))"

definition top_counties_data :: "dataframe \<Rightarrow> dataframe" where
  "top_counties_data df = isin Col_County (top_counties df) df"

definition ev_type_distribution :: "dataframe \<Rightarrow> (string \<times> nat) list" where
  "ev_type_distribution df = value_counts df Col_Type"

definition ev_make_distribution :: "dataframe \<Rightarrow> (string \<times> nat) list" where
  "ev_make_distribution df = head 5 (value_counts df Col_Make)"

definition top_3_makes :: "dataframe \<Rightarrow> string list" where
  "top_3_makes df = map fst (head 3 (ev_make_distribution df))"

definition top_makes_data :: "dataframe \<Rightarrow> dataframe" where
  "top_makes_data df = isin Col_Make (top_3_makes df) df"

text \<open>The three tables derived from the subsets, before their labels are shortened.\<close>

definition ev_city_distribution_top_counties :: "dataframe \<Rightarrow> ((string \<times> string) \<times> nat) list" where
  "ev_city_distribution_top_counties part =
     head 5 (sort_values_desc (size_groups (groupby2 part Col_County Col_City)))"

definition ev_model_distribution_top_makes :: "dataframe \<Rightarrow> ((string \<times> string) \<times> nat) list" where
  "ev_model_distribution_top_makes part =
     sort_values_desc (size_groups (groupby2 part Col_Make Col_Model))"

definition average_range_by_model :: "dataframe \<Rightarrow> ((string \<times> string) \<times> real option) list" where
  "average_range_by_model part =
     sort_values_desc_na (mean_range (groupby2 part Col_Make Col_Model))"

text \<open>Top Cities in Top Counties (lines 79 to 94).\<close>

definition plot_top_cities :: "(string \<Rightarrow> nat) \<Rightarrow> string \<Rightarrow> dataframe \<Rightarrow> world \<Rightarrow> world" where
  "plot_top_cities render_time filename part w =
     (let (t, w1) = alloc (Count_table Col_County Col_City
                             (ev_city_distribution_top_counties part)) w;
          w2 = setitem t Col_City display_label w1
      in savefig render_time filename (Barh_cities (heap w2 ! t)) w2)"

text \<open>Top Models in Top 3 Makes (lines 121 to 137).\<close>

definition plot_top_models :: "(string \<Rightarrow> nat) \<Rightarrow> string \<Rightarrow> dataframe \<Rightarrow> world \<Rightarrow> world" where
  "plot_top_models render_time filename part w =
     (let (m, w1) = alloc (Count_table Col_Make Col_Model
                             (ev_model_distribution_top_makes part)) w;
          (t, w2) = alloc (head_copy 5 (heap w1 ! m)) w1;
          w3 = setitem t Col_Model display_label w2
      in savefig render_time filename (Barh_models (heap w3 ! t)) w3)"

text \<open>Average Range by Model Year (lines 140 to 150): reads the table again.\<close>

definition plot_average_range ::
  "(string \<Rightarrow> nat) \<Rightarrow> string \<Rightarrow> nat \<Rightarrow> world \<Rightarrow> exn option \<times> world" where
  "plot_average_range render_time filename a w =
     (case frame_at w a of
        Inl e \<Rightarrow> (Some e, w)
      | Inr df \<Rightarrow>
          (None, savefig render_time filename
                   (Line_range_by_year (mean_range (groupby_year df))) w))"

text \<open>Top Models by Average Range (lines 153 to 169).\<close>

definition plot_top_range :: "(string \<Rightarrow> nat) \<Rightarrow> string \<Rightarrow> dataframe \<Rightarrow> world \<Rightarrow> world" where
  "plot_top_range render_time filename part w =
     (let (m, w1) = alloc (Range_table Col_Make Col_Model (average_range_by_model part)) w;
          (t, w2) = alloc (head_copy 5 (heap w1 ! m)) w1;
          w3 = setitem t Col_Model display_label w2
      in savefig render_time filename (Barh_range_models (heap w3 ! t)) w3)"

text \<open>
  Forecasted EV Market (lines 172 to 190). \<open>np.arange(filtered_years.index.min(), 2030)\<close>
  raises ValueError when the minimum is NaN, and \<open>forecasted_evs[year]\<close> raises KeyError
  for a year that is no key of the forecast.
\<close>

definition plot_forecast ::
  "(string \<Rightarrow> nat) \<Rightarrow> string \<Rightarrow> nat \<Rightarrow> forecast \<Rightarrow> world \<Rightarrow> exn option \<times> world" where
  "plot_forecast render_time filename a forecasted_evs w =
     (case frame_at w a of
        Inl e \<Rightarrow> (Some e, w)
      | Inr df \<Rightarrow>
          (let actual = filtered_years df
           in case index_min actual of
                None \<Rightarrow> (Some ValueError, w)
              | Some m \<Rightarrow>
                  (case those (map (\<lambda>year. map_of forecasted_evs (Some year)) [2024..2029]) of
                     None \<Rightarrow> (Some KeyError, w)
                   | Some forecasted_values_full \<Rightarrow>
                       (None, savefig render_time filename
                                (Line_forecast actual (zip [2024..2029] forecasted_values_full))
                                w))))"

text \<open>
  The whole function: the result is the exception that ends it, if any, and the world it
  leaves. \<open>strftime\<close> formats the time read from the clock.
\<close>

definition plot_all_charts ::
  "(nat \<Rightarrow> string) \<Rightarrow> (string \<Rightarrow> nat) \<Rightarrow> nat \<Rightarrow> forecast \<Rightarrow> string \<Rightarrow> world
     \<Rightarrow> exn option \<times> world" where
  "plot_all_charts strftime render_time a forecasted_evs output_prefix w0 =
     (let timestamp = strftime (clock w0)
      in case frame_at w0 a of
           Inl e \<Rightarrow> (Some e, w0)
         | Inr df \<Rightarrow>
             (let w1 = savefig render_time
                         (chart_file output_prefix ''ev_adoption_over_time'' timestamp)
                         (Bar_adoption (ev_adoption_by_year df)) w0;
                  w2 = plot_top_cities render_time
                         (chart_file output_prefix ''top_cities_in_top_counties'' timestamp)
                         (top_counties_data df) w1;
                  w3 = savefig render_time
                         (chart_file output_prefix ''ev_type_distribution'' timestamp)
                         (Barh_types (ev_type_distribution df)) w2;
                  w4 = savefig render_time
                         (chart_file output_prefix ''top_5_makes'' timestamp)
                         (Barh_makes (ev_make_distribution df)) w3;
                  w5 = plot_top_models render_time
                         (chart_file output_prefix ''top_models_in_top_makes'' timestamp)
                         (top_makes_data df) w4
              in case plot_average_range render_time
                        (chart_file output_prefix ''average_range_by_year'' timestamp) a w5 of
                   (Some e, w6) \<Rightarrow> (Some e, w6)
                 | (None, w6) \<Rightarrow>
                     plot_forecast render_time
                       (chart_file output_prefix ''ev_market_forecast'' timestamp)
                       a forecasted_evs
                       (plot_top_range render_time
                          (chart_file output_prefix ''top_models_by_range'' timestamp)
                          (top_makes_data df) w6)))"

subsection \<open>\<open>main\<close>\<close>

text \<open>
  What \<open>main\<close> takes from outside: the project root derived from the script's path, the
  file system, and the library functions above. Paths are joined with \<open>/\<close>; the output
  prefix is the output folder joined with the file name up to its first dot. The result
  is the exception that ends the run, if any, and the world left. Setting up the log and
  creating the output folder are left out.
\<close>

record env =
  project_root :: string
  path_exists :: "string \<Rightarrow> bool"
  read_csv :: "string \<Rightarrow> exn + dataframe"
  curve_fit :: "(int \<times> nat) list \<Rightarrow> exn + real \<times> real"
  strftime :: "nat \<Rightarrow> string"
  render_time :: "string \<Rightarrow> nat"

definition main :: "env \<Rightarrow> world \<Rightarrow> exn option \<times> world" where
  "main ev w =
     (let input_folder = project_root ev @ ''/input'';
          output_folder = project_root ev @ ''/output''
      in if \<not> path_exists ev input_folder
         then (None, w\<lparr>log := log w @ [Error_no_input_folder]\<rparr>)
         else
           (let file_path = input_folder @ ''/ev_data.csv'';
                (df, lines) = load_data (read_csv ev) file_path;
                w1 = w\<lparr>log := log w @ lines\<rparr>
            in case df of
                 None \<Rightarrow> (None, w1)
               | Some table \<Rightarrow>
                   (let (a, w2) = alloc (Frame table) w1
                    in case forecast_future_registrations (curve_fit ev) table of
                         Inl e \<Rightarrow> (Some e, w2)
                       | Inr forecasted_evs \<Rightarrow>
                           plot_all_charts (strftime ev) (render_time ev) a forecasted_evs
                             (output_folder @ ''/ev_data'')
                             (w2\<lparr>log := log w2 @ [Print_forecast]\<rparr>))))"

subsection \<open>A small input\<close>

text \<open>
  Five rows as read from a file: one registered in Oregon, one without a range, one whose
  city has a long name, one of model year 2024.
\<close>

definition example_row :: row where
  "example_row =
     \<lparr>State = Some ''WA'', Model_Year = Some 2020, Make = Some ''TESLA'',
      Model = Some ''MODEL 3'', County = Some ''King'', City = Some ''Seattle'',
      Electric_Vehicle_Type = Some ''BEV'', Electric_Range = Some 220\<rparr>"

definition example_categories :: "catcol \<Rightarrow> string list" where
  "example_categories c =
     (case c of
        Col_State \<Rightarrow> [''OR'', ''WA'']
      | Col_Make \<Rightarrow> [''CHEVROLET'', ''NISSAN'', ''TESLA'']
      | Col_Model \<Rightarrow> [''BOLT EV'', ''LEAF'', ''MODEL 3'']
      | Col_County \<Rightarrow> [''King'', ''Multnomah'', ''Snohomish'']
      | Col_City \<Rightarrow> [''Mountlake Terrace'', ''Portland'', ''Seattle'']
      | Col_Type \<Rightarrow> [''BEV''])"

definition example_csv :: dataframe where
  "example_csv =
     \<lparr>rows =
        [(0, example_row),
         (1, example_row\<lparr>State := Some ''OR'', Make := Some ''NISSAN'', Model := Some ''LEAF'',
               County := Some ''Multnomah'', City := Some ''Portland''\<rparr>),
         (2, example_row\<lparr>Model_Year := Some 2021, Electric_Range := None\<rparr>),
         (3, example_row\<lparr>Model_Year := Some 2021, Make := Some ''CHEVROLET'',
               Model := Some ''BOLT EV'', County := Some ''Snohomish'',
               City := Some ''Mountlake Terrace'', Electric_Range := Some 238\<rparr>),
         (4, example_row\<lparr>Model_Year := Some 2024\<rparr>)],
      categories = example_categories\<rparr>"

text \<open>The table \<open>load_data\<close> makes of it.\<close>

definition example_table :: dataframe where
  "example_table =
     \<lparr>rows =
        [(0, example_row),
         (1, example_row\<lparr>Model_Year := Some 2021, Make := Some ''CHEVROLET'',
               Model := Some ''BOLT EV'', County := Some ''Snohomish'',
               City := Some ''Mountlake Terrace'', Electric_Range := Some 238\<rparr>),
         (2, example_row\<lparr>Model_Year := Some 2024\<rparr>)],
      categories = example_categories\<rparr>"

text \<open>
  A table with more candidates than any selection keeps: four counties, six makes, six
  (county, city) pairs in the top counties and seven (make, model) pairs in the top makes.
\<close>

definition wide_categories :: "catcol \<Rightarrow> string list" where
  "wide_categories c =
     (case c of
        Col_State \<Rightarrow> [''WA'']
      | Col_Make \<Rightarrow> [''BMW'', ''CHEVROLET'', ''FORD'', ''KIA'', ''NISSAN'', ''TESLA'']
      | Col_Model \<Rightarrow> [''BOLT EV'', ''FOCUS'', ''I3'', ''LEAF'', ''MODEL 3'', ''MODEL S'',
                        ''MODEL X'', ''MODEL Y'', ''NIRO'', ''VOLT'']
      | Col_County \<Rightarrow> [''King'', ''Pierce'', ''Snohomish'', ''Thurston'']
      | Col_City \<Rightarrow> [''Bellevue'', ''Everett'', ''Kirkland'', ''Olympia'', ''Redmond'',
                       ''Seattle'', ''Tacoma'']
      | Col_Type \<Rightarrow> [''BEV''])"

definition wide_row :: "string \<Rightarrow> string \<Rightarrow> string \<Rightarrow> string \<Rightarrow> real \<Rightarrow> row" where
  "wide_row mk mdl county city miles =
     example_row\<lparr>Make := Some mk, Model := Some mdl, County := Some county,
       City := Some city, Electric_Range := Some miles\<rparr>"

definition example_wide :: dataframe where
  "example_wide =
     \<lparr>rows =
        [(0, wide_row ''TESLA'' ''MODEL 3'' ''King'' ''Seattle'' 220),
         (1, wide_row ''TESLA'' ''MODEL 3'' ''King'' ''Seattle'' 240),
         (2, wide_row ''TESLA'' ''MODEL Y'' ''King'' ''Bellevue'' 300),
         (3, wide_row ''TESLA'' ''MODEL S'' ''King'' ''Redmond'' 250),
         (4, wide_row ''TESLA'' ''MODEL X'' ''King'' ''Kirkland'' 260),
         (5, wide_row ''NISSAN'' ''LEAF'' ''Pierce'' ''Tacoma'' 150),
         (6, wide_row ''NISSAN'' ''LEAF'' ''Pierce'' ''Tacoma'' 100),
         (7, wide_row ''CHEVROLET'' ''BOLT EV'' ''Snohomish'' ''Everett'' 238),
         (8, wide_row ''CHEVROLET'' ''VOLT'' ''Snohomish'' ''Everett'' 50),
         (9, wide_row ''FORD'' ''FOCUS'' ''Thurston'' ''Olympia'' 100),
         (10, wide_row ''KIA'' ''NIRO'' ''King'' ''Seattle'' 26),
         (11, wide_row ''BMW'' ''I3'' ''King'' ''Seattle'' 80)],
      categories = wide_categories\<rparr>"

text \<open>A table of one row whose make, model, city and vehicle type have long names.\<close>

definition example_long :: dataframe where
  "example_long =
     \<lparr>rows =
        [(0, example_row\<lparr>Make := Some ''MERCEDES-BENZ'', Model := Some ''EQS-CLASS SEDAN'',
               County := Some ''Snohomish'', City := Some ''Mountlake Terrace'',
               Electric_Vehicle_Type := Some ''Battery Electric Vehicle (BEV)''\<rparr>)],
      categories =
        (\<lambda>c. case c of
           Col_State \<Rightarrow> [''WA'']
         | Col_Make \<Rightarrow> [''MERCEDES-BENZ'']
         | Col_Model \<Rightarrow> [''EQS-CLASS SEDAN'']
         | Col_County \<Rightarrow> [''Snohomish'']
         | Col_City \<Rightarrow> [''Mountlake Terrace'']
         | Col_Type \<Rightarrow> [''Battery Electric Vehicle (BEV)''])\<rparr>"

definition example_long_world :: world where
  "example_long_world = \<lparr>heap = [Frame example_long], clock = 0, saved = [], log = []\<rparr>"

text \<open>A table with a single model year.\<close>

definition example_single :: dataframe where
  "example_single = \<lparr>rows = [(0, example_row)], categories = example_categories\<rparr>"

text \<open>
  Stand-ins for the library: a fit that rejects fewer than two points, as a least-squares
  fit of two parameters does, and otherwise returns a constant model; a clock that is
  read in the last second of a day.
\<close>

definition example_fit :: "(int \<times> nat) list \<Rightarrow> exn + real \<times> real" where
  "example_fit s = (if length s < 2 then Inl TypeError else Inr (real (snd (hd s)), 0))"

definition example_strftime :: "nat \<Rightarrow> string" where
  "example_strftime t = (if t = 0 then ''20241231_235959'' else ''20250101_000000'')"

definition example_env :: "(exn + dataframe) \<Rightarrow> env" where
  "example_env file =
     \<lparr>project_root = ''/ev'', path_exists = (\<lambda>p. True), read_csv = (\<lambda>p. file),
      curve_fit = example_fit, strftime = example_strftime, render_time = (\<lambda>f. 1)\<rparr>"

definition example_world :: world where
  "example_world = \<lparr>heap = [], clock = 0, saved = [], log = []\<rparr>"

text \<open>The world of \<open>main\<close> on the five rows when it calls \<open>plot_all_charts\<close>.\<close>

definition example_loaded :: world where
  "example_loaded =
     \<lparr>heap = [Frame example_table], clock = 0, saved = [],
      log = [Info_loaded ''/ev/input/ev_data.csv'' 5 8, Info_dropped 4, Info_filtered 3,
             Print_forecast]\<rparr>"

subsection \<open>Notions used to state the properties\<close>

text \<open>
  \<open>selected\<close> are \<open>n\<close> highest of the \<open>candidates\<close>: as many as there are, up to
  \<open>n\<close>, taken among the candidates, and no candidate left out has a higher value than
  one selected. For a value that may be NaN, NaN is the lowest.
\<close>

definition highest :: "nat \<Rightarrow> ('k \<times> 'v::linorder) list \<Rightarrow> ('k \<times> 'v) list \<Rightarrow> bool" where
  "highest n candidates selected \<longleftrightarrow>
     length selected = min n (length candidates) \<and>
     mset selected \<subseteq># mset candidates \<and>
     (\<forall>p \<in># mset candidates - mset selected. \<forall>q \<in> set selected. snd p \<le> snd q)"

text \<open>
  The candidates of the selections, said of the rows of the table themselves: for a
  column, every category with the number of rows that have it; for a pair of columns
  and a list of keys, every pair of categories that some row has and whose first
  component is one of the keys, with a value of the rows that have the pair, their
  number or the mean of their ranges (the sum of the ranges over how many there are,
  NaN when there is none).
\<close>

definition rows_where :: "dataframe \<Rightarrow> (row \<Rightarrow> bool) \<Rightarrow> row list" where
  "rows_where df P = filter P (map snd (rows df))"

definition category_candidates :: "dataframe \<Rightarrow> catcol \<Rightarrow> (string \<times> nat) list" where
  "category_candidates df c =
     map (\<lambda>k. (k, length (rows_where df (\<lambda>r. cell c r = Some k)))) (categories df c)"

definition pairs_within ::
  "dataframe \<Rightarrow> catcol \<Rightarrow> catcol \<Rightarrow> string list \<Rightarrow> (row list \<Rightarrow> 'v) \<Rightarrow> ((string \<times> string) \<times> 'v) list" where
  "pairs_within df c1 c2 keys f =
     [((a, b), f (rows_where df (\<lambda>r. cell c1 r = Some a \<and> cell c2 r = Some b))).
        a \<leftarrow> filter (\<lambda>a. a \<in> set keys) (categories df c1), b \<leftarrow> categories df c2,
        rows_where df (\<lambda>r. cell c1 r = Some a \<and> cell c2 r = Some b) \<noteq> []]"

definition range_average :: "row list \<Rightarrow> real option" where
  "range_average rs =
     (if \<forall>r \<in> set rs. Electric_Range r = None then None
      else Some ((\<Sum>r \<leftarrow> rs. case Electric_Range r of None \<Rightarrow> 0 | Some x \<Rightarrow> x)
                 / real (length (filter (\<lambda>r. Electric_Range r \<noteq> None) rs))))"

text \<open>
  What pandas keeps true of a categorical column: its categories are distinct and every
  cell holds one of them.
\<close>

definition categorical :: "dataframe \<Rightarrow> bool" where
  "categorical df \<longleftrightarrow>
     (\<forall>c. distinct (categories df c) \<and> set (column df c) \<subseteq> set (categories df c))"

text \<open>
  What a run of \<open>plot_all_charts\<close> on the table \<open>df\<close> leaves behind before it comes to
  the forecast chart: the objects it has made, and the seven charts it has saved.
\<close>

definition shorten :: "((string \<times> string) \<times> 'v) list \<Rightarrow> ((string \<times> string) \<times> 'v) list" where
  "shorten t = map (\<lambda>((a, b), v). ((a, display_label b), v)) t"

definition derived_objects :: "dataframe \<Rightarrow> obj list" where
  "derived_objects df =
     [Count_table Col_County Col_City
        (shorten (ev_city_distribution_top_counties (top_counties_data df))),
      Count_table Col_Make Col_Model (ev_model_distribution_top_makes (top_makes_data df)),
      Count_table Col_Make Col_Model
        (shorten (head 5 (ev_model_distribution_top_makes (top_makes_data df)))),
      Range_table Col_Make Col_Model (average_range_by_model (top_makes_data df)),
      Range_table Col_Make Col_Model
        (shorten (head 5 (average_range_by_model (top_makes_data df))))]"

definition first_charts :: "dataframe \<Rightarrow> string \<Rightarrow> string \<Rightarrow> (string \<times> chart) list" where
  "first_charts df output_prefix timestamp =
     [(chart_file output_prefix ''ev_adoption_over_time'' timestamp,
       Bar_adoption (ev_adoption_by_year df)),
      (chart_file output_prefix ''top_cities_in_top_counties'' timestamp,
       Barh_cities (derived_objects df ! 0)),
      (chart_file output_prefix ''ev_type_distribution'' timestamp,
       Barh_types (ev_type_distribution df)),
      (chart_file output_prefix ''top_5_makes'' timestamp,
       Barh_makes (ev_make_distribution df)),
      (chart_file output_prefix ''top_models_in_top_makes'' timestamp,
       Barh_models (derived_objects df ! 2)),
      (chart_file output_prefix ''average_range_by_year'' timestamp,
       Line_range_by_year (mean_range (groupby_year df))),
      (chart_file output_prefix ''top_models_by_range'' timestamp,
       Barh_range_models (derived_objects df ! 4))]"

definition before_forecast ::
  "(string \<Rightarrow> nat) \<Rightarrow> dataframe \<Rightarrow> string \<Rightarrow> string \<Rightarrow> world \<Rightarrow> world" where
  "before_forecast rt df output_prefix timestamp w =
     w\<lparr>heap := heap w @ derived_objects df,
       saved := saved w @ first_charts df output_prefix timestamp,
       clock := clock w + sum_list (map (rt \<circ> fst) (first_charts df output_prefix timestamp)),
       log := log w @ map (Info_saved \<circ> fst) (first_charts df output_prefix timestamp)\<rparr>"

definition chart_slugs :: "string list" where
  "chart_slugs =
     [''ev_adoption_over_time'', ''top_cities_in_top_counties'', ''ev_type_distribution'',
      ''top_5_makes'', ''top_models_in_top_makes'', ''average_range_by_year'',
      ''top_models_by_range'', ''ev_market_forecast'']"

text \<open>The table without the rows of a model year after 2023.\<close>

definition up_to_cutoff :: "dataframe \<Rightarrow> dataframe" where
  "up_to_cutoff df =
     df\<lparr>rows := filter (\<lambda>(i, r). case Model_Year r of None \<Rightarrow> False | Some y \<Rightarrow> y \<le> 2023)
                   (rows df)\<rparr>"

section \<open>Properties\<close>

subsection \<open>The loader\<close>

lemma snd_rows_reset_index: "map snd (rows (reset_index df)) = map snd (rows df)"
  by (simp add: reset_index_def)

lemma fst_rows_reset_index: "map fst (rows (reset_index df)) = [0..<length (rows df)]"
  by (simp add: reset_index_def)

lemma length_rows_reset_index: "length (rows (reset_index df)) = length (rows df)"
  by (simp add: reset_index_def)

lemma values_reset_index: "snd ` set (rows (reset_index df)) = snd ` set (rows df)"
  using snd_rows_reset_index [of df] by (metis set_map)

lemma categories_reset_index: "categories (reset_index df) = categories df"
  by (simp add: reset_index_def)

lemma load_example:
  "load_data (\<lambda>p. Inr example_csv) ''input/ev_data.csv'' =
     (Some example_table,
      [Info_loaded ''input/ev_data.csv'' 5 8, Info_dropped 4, Info_filtered 3])"
  by (simp add: load_data_def example_csv_def example_table_def example_row_def
      reset_index_def dropna_def state_eq_def isnull_def len_def upt_conv_Cons)

lemma loaded_rows:
  assumes "load_data rd file_path = (Some df, lines)"
  shows "\<forall>(i, r) \<in> set (rows df). \<not> isnull r \<and> State r = Some ''WA''"
    and "map fst (rows df) = [0..<length (rows df)]"
proof -
  obtain df0 where rd: "rd file_path = Inr df0"
    using assms by (cases "rd file_path") (auto simp: load_data_def)
  define df1 where "df1 = reset_index (dropna df0)"
  have df: "df = reset_index (state_eq ''WA'' df1)"
    using assms rd by (simp add: load_data_def Let_def df1_def)
  have r1: "\<forall>r \<in> snd ` set (rows df1). \<not> isnull r"
    by (auto simp: df1_def values_reset_index dropna_def)
  have "snd ` set (rows df) \<subseteq> {r \<in> snd ` set (rows df1). State r = Some ''WA''}"
    by (auto simp: df values_reset_index state_eq_def)
  with r1 have "\<forall>r \<in> snd ` set (rows df). \<not> isnull r \<and> State r = Some ''WA''"
    by blast
  then show "\<forall>(i, r) \<in> set (rows df). \<not> isnull r \<and> State r = Some ''WA''"
    by force
  show "map fst (rows df) = [0..<length (rows df)]"
    by (simp add: df fst_rows_reset_index length_rows_reset_index)
qed

text \<open>
  C2. When \<open>load_data\<close> returns a table, no row of it has a missing value in any of the
  eight columns, every row has State \<open>WA\<close>, and the index labels are 0, 1, ... in order.
\<close>

theorem load_data_clean:
  assumes "load_data rd file_path = (Some df, lines)"
  shows "(\<forall>(i, r) \<in> set (rows df).
            State r = Some ''WA'' \<and> Model_Year r \<noteq> None \<and> Make r \<noteq> None \<and>
            Model r \<noteq> None \<and> County r \<noteq> None \<and> City r \<noteq> None \<and>
            Electric_Vehicle_Type r \<noteq> None \<and> Electric_Range r \<noteq> None) \<and>
         map fst (rows df) = [0..<length (rows df)]"
proof -
  have "\<forall>(i, r) \<in> set (rows df).
            State r = Some ''WA'' \<and> Model_Year r \<noteq> None \<and> Make r \<noteq> None \<and>
            Model r \<noteq> None \<and> County r \<noteq> None \<and> City r \<noteq> None \<and>
            Electric_Vehicle_Type r \<noteq> None \<and> Electric_Range r \<noteq> None"
    using loaded_rows(1) [OF assms] by (force simp: isnull_def)
  with loaded_rows(2) [OF assms] show ?thesis by blast
qed

theorem load_data_clean_witness:
  "load_data (\<lambda>p. Inr example_csv) ''input/ev_data.csv'' =
     (Some example_table,
      [Info_loaded ''input/ev_data.csv'' 5 8, Info_dropped 4, Info_filtered 3]) \<and>
   list_all (\<lambda>(i, r).
       State r = Some ''WA'' \<and> Model_Year r \<noteq> None \<and> Make r \<noteq> None \<and>
       Model r \<noteq> None \<and> County r \<noteq> None \<and> City r \<noteq> None \<and>
       Electric_Vehicle_Type r \<noteq> None \<and> Electric_Range r \<noteq> None) (rows example_table) \<and>
   map fst (rows example_table) = [0, 1, 2] \<and> length (rows example_csv) = 5"
proof -
  have "map fst (rows example_table) = [0, 1, 2]" "length (rows example_csv) = 5"
    by (simp_all add: example_table_def example_csv_def)
  with load_example load_data_clean [OF load_example] show ?thesis
    unfolding list_all_iff by blast
qed

subsection \<open>Sorting and selecting\<close>

lemma mset_sort_values_desc: "mset (sort_values_desc s) = mset s"
  by (simp add: sort_values_desc_def)

lemma sorted_sort_values_desc: "sorted_wrt (\<lambda>p q. snd q \<le> snd p) (sort_values_desc s)"
proof -
  have "sorted (map snd (sort_key snd (rev s)))"
    by (rule sorted_sort_key)
  then have "sorted_wrt (\<lambda>p q. snd p \<le> snd q) (sort_key snd (rev s))"
    by (simp add: sorted_wrt_map)
  then show ?thesis
    by (simp add: sort_values_desc_def sorted_wrt_rev)
qed

lemma highest_head:
  assumes "sorted_wrt (\<lambda>p q. snd q \<le> snd p) s" and "mset s = mset c"
  shows "highest n c (head n s)"
proof -
  have split: "s = take n s @ drop n s" by simp
  have len: "length s = length c"
    using assms(2) by (rule mset_eq_length)
  have m: "mset c = mset (take n s) + mset (drop n s)"
    using assms(2) split by (metis mset_append)
  have "sorted_wrt (\<lambda>p q. snd q \<le> snd p) (take n s @ drop n s)"
    using assms(1) by simp
  then have ord: "\<forall>q \<in> set (take n s). \<forall>p \<in> set (drop n s). snd p \<le> snd q"
    unfolding sorted_wrt_append by blast
  show ?thesis
    unfolding highest_def head_def using len m ord by (auto simp: min.commute)
qed

lemma some_part:
  "map (\<lambda>(k, v). (k, Some v)) (List.map_filter (\<lambda>(k, v). map_option (Pair k) v) s) =
   filter (\<lambda>(k, v). v \<noteq> None) s"
  by (induction s) (auto split: option.splits)

lemma mset_sort_values_desc_na: "mset (sort_values_desc_na s) = mset s"
proof -
  have "mset (sort_values_desc_na s) =
        mset (map (\<lambda>(k, v). (k, Some v)) (List.map_filter (\<lambda>(k, v). map_option (Pair k) v) s))
        + mset (filter (\<lambda>(k, v). v = None) s)"
    by (simp add: sort_values_desc_na_def mset_sort_values_desc)
  also have "\<dots> = mset (filter (\<lambda>(k, v). v \<noteq> None) s) + mset (filter (\<lambda>(k, v). v = None) s)"
    by (simp only: some_part)
  also have "\<dots> = mset s"
  proof -
    have "(\<lambda>(k, v). v \<noteq> None) = (\<lambda>x. \<not> (case x of (k, v) \<Rightarrow> v = None))"
      by auto
    then show ?thesis
      by (simp add: add.commute)
  qed
  finally show ?thesis .
qed

lemma sorted_sort_values_desc_na: "sorted_wrt (\<lambda>p q. snd q \<le> snd p) (sort_values_desc_na s)"
proof -
  let ?t = "sort_values_desc (List.map_filter (\<lambda>(k, v). map_option (Pair k) v) s)"
  have "sorted_wrt (\<lambda>p q. snd q \<le> snd p) ?t"
    by (rule sorted_sort_values_desc)
  then have a: "sorted_wrt (\<lambda>p q. snd q \<le> snd p) (map (\<lambda>(k, v). (k, Some v)) ?t)"
    by (simp add: sorted_wrt_map case_prod_beta)
  have b: "sorted_wrt (\<lambda>p q. snd q \<le> snd p) (filter (\<lambda>(k, v). v = None) s)"
    by (induction s) auto
  have c: "\<forall>q \<in> set (filter (\<lambda>(k, v). v = None) s). snd q = None"
    by auto
  show ?thesis
    unfolding sort_values_desc_na_def sorted_wrt_append using a b c by auto
qed

lemma highest_value_counts: "highest n (category_counts df c) (head n (value_counts df c))"
  unfolding value_counts_def
  by (rule highest_head [OF sorted_sort_values_desc mset_sort_values_desc])

lemma head_head: "head m (head n s) = head (min m n) s"
  by (simp add: head_def)

lemma length_head: "length (head n s) \<le> n"
  by (simp add: head_def)

lemma groupby2_isin_key:
  assumes "((a, b), g) \<in> set (groupby2 (isin c1 keys df) c1 c2)"
  shows "a \<in> set keys"
proof -
  from assms have ne: "filter (\<lambda>r. cell c1 r = Some a \<and> cell c2 r = Some b)
                      (map snd (rows (isin c1 keys df))) \<noteq> []"
    by (auto simp: groupby2_def)
  then obtain r where "r \<in> set (map snd (rows (isin c1 keys df)))" "cell c1 r = Some a"
    by (auto simp: filter_empty_conv)
  then show ?thesis
    by (auto simp: isin_def split: option.splits)
qed

lemma count_column:
  "count_list (column df c) k = length (rows_where df (\<lambda>r. cell c r = Some k))"
proof -
  have "count_list (List.map_filter (\<lambda>(i, r). cell c r) xs) k =
        length (filter (\<lambda>r. cell c r = Some k) (map snd xs))" for xs :: "(nat \<times> row) list"
    by (induction xs) (auto split: option.splits)
  then show ?thesis
    by (simp add: column_def rows_where_def)
qed

lemma category_counts_eq: "category_counts df c = category_candidates df c"
  by (simp add: category_counts_def category_candidates_def count_column)

lemma mean_eq: "mean (map Electric_Range rs) = range_average rs"
proof -
  have a: "List.map_filter (\<lambda>v. v) (map Electric_Range rs) = [] \<longleftrightarrow>
           (\<forall>r \<in> set rs. Electric_Range r = None)"
    by (induction rs) (auto split: option.splits)
  have b: "sum_list (List.map_filter (\<lambda>v. v) (map Electric_Range rs)) =
           (\<Sum>r \<leftarrow> rs. case Electric_Range r of None \<Rightarrow> 0 | Some x \<Rightarrow> x)"
    by (induction rs) (auto split: option.splits)
  have c: "length (List.map_filter (\<lambda>v. v) (map Electric_Range rs)) =
           length (filter (\<lambda>r. Electric_Range r \<noteq> None) rs)"
    by (induction rs) (auto split: option.splits)
  show ?thesis
    unfolding mean_def range_average_def Let_def a b c by simp
qed

lemma rows_isin:
  "filter (\<lambda>r. cell c1 r = Some a \<and> Q r) (map snd (rows (isin c1 keys df))) =
     (if a \<in> set keys then rows_where df (\<lambda>r. cell c1 r = Some a \<and> Q r) else [])"
proof -
  have "filter (\<lambda>r. cell c1 r = Some a \<and> Q r)
          (map snd (filter (\<lambda>(i, r). case cell c1 r of None \<Rightarrow> False | Some v \<Rightarrow> v \<in> set keys) xs)) =
        (if a \<in> set keys then filter (\<lambda>r. cell c1 r = Some a \<and> Q r) (map snd xs) else [])"
    for xs :: "(nat \<times> row) list"
    by (induction xs) (auto split: option.splits)
  then show ?thesis
    by (simp add: isin_def rows_where_def)
qed

lemma pairs_inner:
  assumes "\<And>b. G b = (if inside then R b else [])"
  shows "[((a, b), f g). b \<leftarrow> bs, g \<leftarrow> [G b], g \<noteq> []] =
         (if inside then [((a, b), f (R b)). b \<leftarrow> bs, R b \<noteq> []] else [])"
  by (induction bs) (auto simp: assms)

lemma pairs_outer:
  assumes "\<And>a b. G a b = (if a \<in> K then R a b else [])"
  shows "[((a, b), f g). a \<leftarrow> as, b \<leftarrow> bs, g \<leftarrow> [G a b], g \<noteq> []] =
         [((a, b), f (R a b)). a \<leftarrow> filter (\<lambda>a. a \<in> K) as, b \<leftarrow> bs, R a b \<noteq> []]"
proof (induction as)
  case Nil
  then show ?case by simp
next
  case (Cons a as)
  have inner: "[((a, b), f g). b \<leftarrow> bs, g \<leftarrow> [G a b], g \<noteq> []] =
        (if a \<in> K then [((a, b), f (R a b)). b \<leftarrow> bs, R a b \<noteq> []] else [])"
    by (rule pairs_inner) (rule assms)
  show ?case
    using Cons.IH inner by simp
qed

lemma map_groups:
  "map (\<lambda>(k, g). (k, f g)) [((a, b), g). a \<leftarrow> as, b \<leftarrow> bs, g \<leftarrow> [G a b], g \<noteq> []] =
   [((a, b), f g). a \<leftarrow> as, b \<leftarrow> bs, g \<leftarrow> [G a b], g \<noteq> []]"
  by (simp add: map_concat comp_def if_distrib [where f = "map (\<lambda>(k, g). (k, f g))"]
      cong: if_cong)

lemma groups_isin:
  "map (\<lambda>(k, g). (k, f g)) (groupby2 (isin c1 keys df) c1 c2) = pairs_within df c1 c2 keys f"
proof -
  have cats: "categories (isin c1 keys df) = categories df"
    by (simp add: isin_def)
  show ?thesis
    unfolding groupby2_def pairs_within_def cats map_groups
    by (rule pairs_outer) (rule rows_isin)
qed


lemma set_head_sorted: "set (head n (sort_values_desc s)) \<subseteq> set s"
  unfolding head_def by (metis mset_sort_values_desc set_mset_mset set_take_subset)

lemma set_head_sorted_na: "set (head n (sort_values_desc_na s)) \<subseteq> set s"
  unfolding head_def by (metis mset_sort_values_desc_na set_mset_mset set_take_subset)

lemma pairs_within_key: "((a, b), v) \<in> set (pairs_within df c1 c2 keys f) \<Longrightarrow> a \<in> set keys"
  by (auto simp: pairs_within_def)

lemma size_groups_isin:
  "size_groups (groupby2 (isin c1 keys df) c1 c2) = pairs_within df c1 c2 keys length"
  unfolding size_groups_def by (rule groups_isin)

lemma mean_range_isin:
  "mean_range (groupby2 (isin c1 keys df) c1 c2) = pairs_within df c1 c2 keys range_average"
proof -
  have "(\<lambda>g. mean (map Electric_Range g)) = range_average"
    by (rule ext) (rule mean_eq)
  then show ?thesis
    unfolding mean_range_def using groups_isin [of "\<lambda>g. mean (map Electric_Range g)" c1 keys df c2]
    by simp
qed

text \<open>
  C7. The top 3 counties, the top 5 makes, the top 3 of those, the top 5 (county, city)
  pairs and the top 5 (make, model) pairs by count and by mean range are each at most
  that many, and the highest of their candidates. The candidates are: every county, or
  make, with the number of rows of the table that have it; every (county, city) pair
  that a row has with its county among the top 3, with the number of rows of the pair;
  every (make, model) pair that a row has with its make among the top 3 makes, with the
  number of rows of the pair, or the mean of their ranges. The (county, city) pairs are
  5 at most over all the top counties, not 5 for each.
\<close>

theorem top_selections:
  "highest 3 (category_candidates df Col_County) (head 3 (ev_county_distribution df)) \<and>
   top_counties df = map fst (head 3 (ev_county_distribution df)) \<and>
   length (top_counties df) \<le> 3 \<and>
   highest 5 (category_candidates df Col_Make) (ev_make_distribution df) \<and>
   length (ev_make_distribution df) \<le> 5 \<and>
   highest 3 (category_candidates df Col_Make) (head 3 (ev_make_distribution df)) \<and>
   top_3_makes df = map fst (head 3 (ev_make_distribution df)) \<and>
   length (top_3_makes df) \<le> 3 \<and>
   highest 5 (pairs_within df Col_County Col_City (top_counties df) length)
     (ev_city_distribution_top_counties (top_counties_data df)) \<and>
   length (ev_city_distribution_top_counties (top_counties_data df)) \<le> 5 \<and>
   (\<forall>((county, city), n) \<in> set (ev_city_distribution_top_counties (top_counties_data df)).
      county \<in> set (top_counties df)) \<and>
   highest 5 (pairs_within df Col_Make Col_Model (top_3_makes df) length)
     (head 5 (ev_model_distribution_top_makes (top_makes_data df))) \<and>
   (\<forall>((make, model), n) \<in> set (head 5 (ev_model_distribution_top_makes (top_makes_data df))).
      make \<in> set (top_3_makes df)) \<and>
   highest 5 (pairs_within df Col_Make Col_Model (top_3_makes df) range_average)
     (head 5 (average_range_by_model (top_makes_data df))) \<and>
   (\<forall>((make, model), v) \<in> set (head 5 (average_range_by_model (top_makes_data df))).
      make \<in> set (top_3_makes df))"
proof -
  let ?cities = "pairs_within df Col_County Col_City (top_counties df) length"
  let ?models = "pairs_within df Col_Make Col_Model (top_3_makes df) length"
  let ?ranges = "pairs_within df Col_Make Col_Model (top_3_makes df) range_average"
  have cities: "ev_city_distribution_top_counties (top_counties_data df) =
      head 5 (sort_values_desc ?cities)"
    by (simp add: ev_city_distribution_top_counties_def top_counties_data_def size_groups_isin)
  have models: "ev_model_distribution_top_makes (top_makes_data df) = sort_values_desc ?models"
    by (simp add: ev_model_distribution_top_makes_def top_makes_data_def size_groups_isin)
  have ranges: "average_range_by_model (top_makes_data df) = sort_values_desc_na ?ranges"
    by (simp add: average_range_by_model_def top_makes_data_def mean_range_isin)
  have c1: "highest 3 (category_candidates df Col_County) (head 3 (ev_county_distribution df))"
    using highest_value_counts [of 3 df Col_County]
    by (simp add: ev_county_distribution_def category_counts_eq)
  have c2: "length (top_counties df) \<le> 3"
    by (simp add: top_counties_def length_head)
  have c3: "highest 5 (category_candidates df Col_Make) (ev_make_distribution df)"
    using highest_value_counts [of 5 df Col_Make]
    by (simp add: ev_make_distribution_def category_counts_eq)
  have c4: "length (ev_make_distribution df) \<le> 5"
    by (simp add: ev_make_distribution_def length_head)
  have c5: "highest 3 (category_candidates df Col_Make) (head 3 (ev_make_distribution df))"
    using highest_value_counts [of 3 df Col_Make]
    by (simp add: ev_make_distribution_def head_head category_counts_eq)
  have c6: "length (top_3_makes df) \<le> 3"
    by (simp add: top_3_makes_def length_head)
  have c7: "highest 5 ?cities (ev_city_distribution_top_counties (top_counties_data df))"
    unfolding cities by (rule highest_head [OF sorted_sort_values_desc mset_sort_values_desc])
  have c8: "length (ev_city_distribution_top_counties (top_counties_data df)) \<le> 5"
    by (simp add: cities length_head)
  have c9: "\<forall>((county, city), n) \<in> set (ev_city_distribution_top_counties (top_counties_data df)).
      county \<in> set (top_counties df)"
    unfolding cities using set_head_sorted [of 5 ?cities]
    by (auto dest: pairs_within_key)
  have c10: "highest 5 ?models (head 5 (ev_model_distribution_top_makes (top_makes_data df)))"
    unfolding models by (rule highest_head [OF sorted_sort_values_desc mset_sort_values_desc])
  have c11: "\<forall>((make, model), n) \<in> set (head 5 (ev_model_distribution_top_makes (top_makes_data df))).
      make \<in> set (top_3_makes df)"
    unfolding models using set_head_sorted [of 5 ?models]
    by (auto dest: pairs_within_key)
  have c12: "highest 5 ?ranges (head 5 (average_range_by_model (top_makes_data df)))"
    unfolding ranges by (rule highest_head [OF sorted_sort_values_desc_na mset_sort_values_desc_na])
  have c13: "\<forall>((make, model), v) \<in> set (head 5 (average_range_by_model (top_makes_data df))).
      make \<in> set (top_3_makes df)"
    unfolding ranges using set_head_sorted_na [of 5 ?ranges]
    by (auto dest: pairs_within_key)
  from c1 c2 c3 c4 c5 c6 c7 c8 c9 c10 c11 c12 c13 show ?thesis
    unfolding top_counties_def [symmetric] top_3_makes_def [symmetric]
    by (simp add: top_counties_def top_3_makes_def)
qed

lemma example_selections:
  "head 3 (ev_county_distribution example_table) = [(''King'', 2), (''Snohomish'', 1), (''Multnomah'', 0)]"
  "category_counts example_table Col_County = [(''King'', 2), (''Multnomah'', 0), (''Snohomish'', 1)]"
  "top_counties example_table = [''King'', ''Snohomish'', ''Multnomah'']"
  "ev_make_distribution example_table = [(''TESLA'', 2), (''CHEVROLET'', 1), (''NISSAN'', 0)]"
  "top_3_makes example_table = [''TESLA'', ''CHEVROLET'', ''NISSAN'']"
  "ev_city_distribution_top_counties (top_counties_data example_table) =
     [((''King'', ''Seattle''), 2), ((''Snohomish'', ''Mountlake Terrace''), 1)]"
  "head 5 (ev_model_distribution_top_makes (top_makes_data example_table)) =
     [((''TESLA'', ''MODEL 3''), 2), ((''CHEVROLET'', ''BOLT EV''), 1)]"
  "head 5 (average_range_by_model (top_makes_data example_table)) =
     [((''CHEVROLET'', ''BOLT EV''), Some 238), ((''TESLA'', ''MODEL 3''), Some 220)]"
  by code_simp+

lemma wide_selections:
  "category_candidates example_wide Col_County =
     [(''King'', 7), (''Pierce'', 2), (''Snohomish'', 2), (''Thurston'', 1)]"
  "head 3 (ev_county_distribution example_wide) =
     [(''King'', 7), (''Pierce'', 2), (''Snohomish'', 2)]"
  "category_candidates example_wide Col_Make =
     [(''BMW'', 1), (''CHEVROLET'', 2), (''FORD'', 1), (''KIA'', 1), (''NISSAN'', 2),
      (''TESLA'', 5)]"
  "ev_make_distribution example_wide =
     [(''TESLA'', 5), (''CHEVROLET'', 2), (''NISSAN'', 2), (''BMW'', 1), (''FORD'', 1)]"
  "top_3_makes example_wide = [''TESLA'', ''CHEVROLET'', ''NISSAN'']"
  "top_counties example_wide = [''King'', ''Pierce'', ''Snohomish'']"
  "pairs_within example_wide Col_County Col_City [''King'', ''Pierce'', ''Snohomish''] length =
     [((''King'', ''Bellevue''), 1), ((''King'', ''Kirkland''), 1), ((''King'', ''Redmond''), 1),
      ((''King'', ''Seattle''), 4), ((''Pierce'', ''Tacoma''), 2),
      ((''Snohomish'', ''Everett''), 2)]"
  "ev_city_distribution_top_counties (top_counties_data example_wide) =
     [((''King'', ''Seattle''), 4), ((''Pierce'', ''Tacoma''), 2),
      ((''Snohomish'', ''Everett''), 2), ((''King'', ''Bellevue''), 1),
      ((''King'', ''Kirkland''), 1)]"
  "pairs_within example_wide Col_Make Col_Model [''TESLA'', ''CHEVROLET'', ''NISSAN''] length =
     [((''CHEVROLET'', ''BOLT EV''), 1), ((''CHEVROLET'', ''VOLT''), 1),
      ((''NISSAN'', ''LEAF''), 2), ((''TESLA'', ''MODEL 3''), 2),
      ((''TESLA'', ''MODEL S''), 1), ((''TESLA'', ''MODEL X''), 1),
      ((''TESLA'', ''MODEL Y''), 1)]"
  "head 5 (ev_model_distribution_top_makes (top_makes_data example_wide)) =
     [((''NISSAN'', ''LEAF''), 2), ((''TESLA'', ''MODEL 3''), 2),
      ((''CHEVROLET'', ''BOLT EV''), 1), ((''CHEVROLET'', ''VOLT''), 1),
      ((''TESLA'', ''MODEL S''), 1)]"
  "pairs_within example_wide Col_Make Col_Model [''TESLA'', ''CHEVROLET'', ''NISSAN'']
     range_average =
     [((''CHEVROLET'', ''BOLT EV''), Some 238), ((''CHEVROLET'', ''VOLT''), Some 50),
      ((''NISSAN'', ''LEAF''), Some 125), ((''TESLA'', ''MODEL 3''), Some 230),
      ((''TESLA'', ''MODEL S''), Some 250), ((''TESLA'', ''MODEL X''), Some 260),
      ((''TESLA'', ''MODEL Y''), Some 300)]"
  "head 5 (average_range_by_model (top_makes_data example_wide)) =
     [((''TESLA'', ''MODEL Y''), Some 300), ((''TESLA'', ''MODEL X''), Some 260),
      ((''TESLA'', ''MODEL S''), Some 250), ((''CHEVROLET'', ''BOLT EV''), Some 238),
      ((''TESLA'', ''MODEL 3''), Some 230)]"
  by code_simp+

theorem top_selections_witness:
  "highest 3 [(''King'', 7), (''Pierce'', 2), (''Snohomish'', 2), (''Thurston'', 1)]
     [(''King'', 7 :: nat), (''Pierce'', 2), (''Snohomish'', 2)] \<and>
   top_counties example_wide = [''King'', ''Pierce'', ''Snohomish''] \<and>
   highest 5
     [(''BMW'', 1), (''CHEVROLET'', 2), (''FORD'', 1), (''KIA'', 1), (''NISSAN'', 2),
      (''TESLA'', 5)]
     [(''TESLA'', 5 :: nat), (''CHEVROLET'', 2), (''NISSAN'', 2), (''BMW'', 1), (''FORD'', 1)] \<and>
   top_3_makes example_wide = [''TESLA'', ''CHEVROLET'', ''NISSAN''] \<and>
   highest 5
     [((''King'', ''Bellevue''), 1), ((''King'', ''Kirkland''), 1), ((''King'', ''Redmond''), 1),
      ((''King'', ''Seattle''), 4), ((''Pierce'', ''Tacoma''), 2),
      ((''Snohomish'', ''Everett''), 2)]
     [((''King'', ''Seattle''), 4 :: nat), ((''Pierce'', ''Tacoma''), 2),
      ((''Snohomish'', ''Everett''), 2), ((''King'', ''Bellevue''), 1),
      ((''King'', ''Kirkland''), 1)] \<and>
   highest 5
     [((''CHEVROLET'', ''BOLT EV''), 1), ((''CHEVROLET'', ''VOLT''), 1),
      ((''NISSAN'', ''LEAF''), 2), ((''TESLA'', ''MODEL 3''), 2),
      ((''TESLA'', ''MODEL S''), 1), ((''TESLA'', ''MODEL X''), 1),
      ((''TESLA'', ''MODEL Y''), 1)]
     [((''NISSAN'', ''LEAF''), 2 :: nat), ((''TESLA'', ''MODEL 3''), 2),
      ((''CHEVROLET'', ''BOLT EV''), 1), ((''CHEVROLET'', ''VOLT''), 1),
      ((''TESLA'', ''MODEL S''), 1)] \<and>
   highest 5
     [((''CHEVROLET'', ''BOLT EV''), Some 238), ((''CHEVROLET'', ''VOLT''), Some 50),
      ((''NISSAN'', ''LEAF''), Some 125), ((''TESLA'', ''MODEL 3''), Some 230),
      ((''TESLA'', ''MODEL S''), Some 250), ((''TESLA'', ''MODEL X''), Some 260),
      ((''TESLA'', ''MODEL Y''), Some 300)]
     [((''TESLA'', ''MODEL Y''), Some 300), ((''TESLA'', ''MODEL X''), Some 260),
      ((''TESLA'', ''MODEL S''), Some 250), ((''CHEVROLET'', ''BOLT EV''), Some 238),
      ((''TESLA'', ''MODEL 3''), Some (230 :: real))]"
  using top_selections [of example_wide]
  by (simp only: wide_selections)


subsection \<open>Counting\<close>

lemma length_map_filter_total:
  "\<forall>x \<in> set xs. f x \<noteq> None \<Longrightarrow> length (List.map_filter f xs) = length xs"
  by (induction xs) (auto split: option.splits)

lemma distinct_unique: "distinct (unique xs)"
  by (simp add: unique_def)

lemma set_unique: "set (unique xs) = set xs"
  by (simp add: unique_def)

lemma sum_counts:
  assumes "distinct ks" and "set ys \<subseteq> set ks"
  shows "sum_list (map snd (map (\<lambda>k. (k, count_list ys k)) ks)) = length ys"
proof -
  have "sum_list (map snd (map (\<lambda>k. (k, count_list ys k)) ks)) = sum_list (map (count_list ys) ks)"
    by (simp add: comp_def)
  also have "\<dots> = sum (count_list ys) (set ks)"
    using assms(1) by (rule sum_list_distinct_conv_sum_set)
  also have "\<dots> = length ys"
    using assms(2) by (simp add: sum_count_set)
  finally show ?thesis .
qed

lemma sum_list_mset_cong:
  fixes s t :: "('k \<times> nat) list"
  assumes "mset s = mset t"
  shows "sum_list (map snd s) = sum_list (map snd t)"
proof -
  have "mset (map snd s) = mset (map snd t)"
    using assms by (metis mset_map)
  then show ?thesis
    by (metis sum_mset_sum_list)
qed

lemma sum_value_counts_year:
  "sum_list (map snd (sort_index (value_counts_year df))) = length (model_years df)"
proof -
  have "mset (sort_index (value_counts_year df)) =
        mset (map (\<lambda>y. (y, count_list (model_years df) y)) (unique (model_years df)))"
    by (simp add: sort_index_def value_counts_year_def mset_sort_values_desc)
  then have "sum_list (map snd (sort_index (value_counts_year df))) =
        sum_list (map snd (map (\<lambda>y. (y, count_list (model_years df) y)) (unique (model_years df))))"
    by (rule sum_list_mset_cong)
  also have "\<dots> = length (model_years df)"
    by (rule sum_counts) (simp_all add: distinct_unique set_unique)
  finally show ?thesis .
qed

lemma sum_value_counts:
  assumes "categorical df"
  shows "sum_list (map snd (value_counts df c)) = length (column df c)"
proof -
  have "sum_list (map snd (value_counts df c)) = sum_list (map snd (category_counts df c))"
    by (rule sum_list_mset_cong) (simp add: value_counts_def mset_sort_values_desc)
  also have "\<dots> = length (column df c)"
    unfolding category_counts_def using assms
    by (intro sum_counts) (auto simp: categorical_def)
  finally show ?thesis .
qed

text \<open>
  C5. On a table returned by \<open>load_data\<close>, the counts per model year add up to the
  number of rows, and so do the counts per county and per vehicle type.
\<close>

theorem counts_sum_to_rows:
  assumes "load_data rd file_path = (Some df, lines)" and "categorical df"
  shows "sum_list (map snd (ev_adoption_by_year df)) = len df \<and>
         sum_list (map snd (ev_county_distribution df)) = len df \<and>
         sum_list (map snd (ev_type_distribution df)) = len df"
proof -
  have clean: "\<forall>(i, r) \<in> set (rows df).
      Model_Year r \<noteq> None \<and> County r \<noteq> None \<and> Electric_Vehicle_Type r \<noteq> None"
    using loaded_rows(1) [OF assms(1)] by (force simp: isnull_def)
  have years: "length (model_years df) = len df"
    unfolding model_years_def len_def using clean
    by (intro length_map_filter_total) auto
  have county: "length (column df Col_County) = len df"
    unfolding column_def len_def using clean
    by (intro length_map_filter_total) auto
  have type: "length (column df Col_Type) = len df"
    unfolding column_def len_def using clean
    by (intro length_map_filter_total) auto
  show ?thesis
    by (simp add: ev_adoption_by_year_def ev_county_distribution_def ev_type_distribution_def
        sum_value_counts_year sum_value_counts [OF assms(2)] years county type)
qed

lemma categorical_example: "categorical example_table"
  unfolding categorical_def
proof
  fix c
  show "distinct (categories example_table c) \<and>
        set (column example_table c) \<subseteq> set (categories example_table c)"
    by (cases c) (simp_all add: example_table_def example_categories_def column_def example_row_def)
qed

theorem counts_sum_to_rows_witness:
  "load_data (\<lambda>p. Inr example_csv) ''input/ev_data.csv'' =
     (Some example_table,
      [Info_loaded ''input/ev_data.csv'' 5 8, Info_dropped 4, Info_filtered 3]) \<and>
   categorical example_table \<and>
   sum_list (map snd (ev_adoption_by_year example_table)) = 3 \<and>
   sum_list (map snd (ev_county_distribution example_table)) = 3 \<and>
   sum_list (map snd (ev_type_distribution example_table)) = 3 \<and>
   ev_adoption_by_year example_table = [(2020, 1), (2021, 1), (2024, 1)]"
proof -
  have "len example_table = 3"
    by (simp add: len_def example_table_def)
  moreover have "ev_adoption_by_year example_table = [(2020, 1), (2021, 1), (2024, 1)]"
    by code_simp
  ultimately show ?thesis
    using load_example categorical_example
      counts_sum_to_rows [OF load_example categorical_example]
    by simp
qed

subsection \<open>The yearly counts and the fitting sample\<close>

lemma ev_registration_counts_eq:
  "ev_registration_counts df =
     map (\<lambda>y. (y, count_list (model_years df) y)) (sort (unique (model_years df)))"
proof -
  let ?f = "\<lambda>y. (y, count_list (model_years df) y)"
  let ?u = "unique (model_years df)"
  have m: "mset (value_counts_year df) = mset (map ?f (sort ?u))"
    by (simp add: value_counts_year_def mset_sort_values_desc)
  have "set (value_counts_year df) = ?f ` set ?u"
    using m by (metis (no_types, lifting) mset_eq_setD set_map set_sort)
  then have i: "inj_on fst (set (value_counts_year df))"
    by (auto simp: inj_on_def)
  have s: "sorted (map fst (map ?f (sort ?u)))"
    by (simp add: comp_def)
  show ?thesis
    unfolding ev_registration_counts_def sort_index_def
    by (rule sort_key_inj_key_eq [OF m i s])
qed

lemma sort_unique_filter:
  fixes ys :: "int list"
  shows "filter P (sort (unique ys)) = sorted_list_of_set {y \<in> set ys. P y}"
proof (rule sorted_distinct_set_unique)
  show "sorted (filter P (sort (unique ys)))"
    by (simp add: sorted_filter [where f = "\<lambda>x. x", simplified])
  show "distinct (filter P (sort (unique ys)))"
    by (simp add: distinct_unique)
  show "sorted (sorted_list_of_set {y \<in> set ys. P y})" by simp
  show "distinct (sorted_list_of_set {y \<in> set ys. P y})" by simp
  show "set (filter P (sort (unique ys))) = set (sorted_list_of_set {y \<in> set ys. P y})"
    by (auto simp: set_unique)
qed

lemma filtered_years_eq:
  "filtered_years df =
     map (\<lambda>y. (y, count_list (model_years df) y))
       (sorted_list_of_set {y \<in> set (model_years df). y \<le> 2023})"
proof -
  have "filtered_years df =
      map (\<lambda>y. (y, count_list (model_years df) y))
        (filter (\<lambda>y. y \<le> 2023) (sort (unique (model_years df))))"
    by (simp add: filtered_years_def ev_registration_counts_eq filter_map comp_def)
  then show ?thesis
    by (simp only: sort_unique_filter)
qed

lemma fst_filtered_years:
  "map fst (filtered_years df) = sorted_list_of_set {y \<in> set (model_years df). y \<le> 2023}"
  by (simp add: filtered_years_eq comp_def)

lemma length_filtered_years:
  "length (filtered_years df) = card {y \<in> set (model_years df). y \<le> 2023}"
  by (simp add: filtered_years_eq)

lemma index_min_filtered_years:
  "index_min (filtered_years df) =
     (if {y \<in> set (model_years df). y \<le> 2023} = {} then None
      else Some (Min {y \<in> set (model_years df). y \<le> 2023}))"
proof -
  have "set (map fst (filtered_years df)) = {y \<in> set (model_years df). y \<le> 2023}"
    by (simp only: fst_filtered_years) simp
  moreover have "filtered_years df = [] \<longleftrightarrow> {y \<in> set (model_years df). y \<le> 2023} = {}"
    by (metis calculation map_is_Nil_conv set_empty)
  ultimately show ?thesis
    by (simp add: index_min_def)
qed

lemma count_list_filter: "P y \<Longrightarrow> count_list (filter P ys) y = count_list ys y"
  by (induction ys) auto

lemma int16_id: "- 32768 \<le> n \<Longrightarrow> n < 32768 \<Longrightarrow> int16 n = n"
  by (simp add: int16_def)

subsection \<open>The forecast\<close>

lemma forecast_years: "[2024..2029] = [2024, 2025, 2026, 2027, 2028, 2029 :: int]"
  by (simp add: upto.simps)

lemma forecast_Inr:
  assumes "forecast_future_registrations cf df = Inr fm"
  obtains a b where
    "cf (zip (x_data (filtered_years df)) (y_data (filtered_years df))) = Inr (a, b)"
    "fm = map (\<lambda>year. case index_min (filtered_years df) of
                         None \<Rightarrow> (None, None)
                       | Some m \<Rightarrow> (Some ((year - m) + m),
                                    Some (exp_growth (real_of_int (year - m)) a b)))
            [2024..2029]"
  using assms
  by (auto simp: forecast_future_registrations_def Let_def split: sum.splits)

lemma sample_Nil:
  "filtered_years df = [] \<Longrightarrow> zip (x_data (filtered_years df)) (y_data (filtered_years df)) = []"
  by (simp add: x_data_def index_min_def)

lemma length_sample:
  "length (zip (x_data s) (y_data s)) = length s"
  by (simp add: x_data_def y_data_def index_min_def)

text \<open>
  C1. When the forecast succeeds, with a \<open>curve_fit\<close> that rejects an empty sample, the
  forecast has 6 entries, its keys are 2024 to 2029 whatever the years of the table, and
  the value at each year is \<open>a * exp (b * (year - year_min))\<close> for the fitted \<open>(a, b)\<close>
  and the earliest year up to 2023.
\<close>

theorem forecast_keys_and_values:
  assumes "isl (cf [])" and "forecast_future_registrations cf df = Inr fm"
  shows "length fm = 6 \<and>
         map fst fm = [Some 2024, Some 2025, Some 2026, Some 2027, Some 2028, Some 2029] \<and>
         (\<exists>a b. cf (zip (x_data (filtered_years df)) (y_data (filtered_years df))) = Inr (a, b) \<and>
            map snd fm =
              map (\<lambda>year. Some (a * exp (b * real_of_int
                       (year - Min {y \<in> set (model_years df). y \<le> 2023}))))
                [2024, 2025, 2026, 2027, 2028, 2029])"
proof -
  from assms(2) obtain a b where
    fit: "cf (zip (x_data (filtered_years df)) (y_data (filtered_years df))) = Inr (a, b)" and
    fm: "fm = map (\<lambda>year. case index_min (filtered_years df) of
                         None \<Rightarrow> (None, None)
                       | Some m \<Rightarrow> (Some ((year - m) + m),
                                    Some (exp_growth (real_of_int (year - m)) a b)))
            [2024..2029]"
    by (rule forecast_Inr)
  have nonempty: "filtered_years df \<noteq> []"
    using fit assms(1) sample_Nil [of df] by auto
  have ne: "{y \<in> set (model_years df). y \<le> 2023} \<noteq> {}"
  proof
    assume "{y \<in> set (model_years df). y \<le> 2023} = {}"
    then have "length (filtered_years df) = 0"
      by (simp add: length_filtered_years)
    with nonempty show False by simp
  qed
  have m: "index_min (filtered_years df) = Some (Min {y \<in> set (model_years df). y \<le> 2023})"
    using ne by (simp add: index_min_filtered_years)
  have "length fm = 6"
    by (simp add: fm forecast_years)
  moreover have "map fst fm = [Some 2024, Some 2025, Some 2026, Some 2027, Some 2028, Some 2029]"
    by (simp add: fm m forecast_years)
  moreover have "map snd fm =
              map (\<lambda>year. Some (a * exp (b * real_of_int
                       (year - Min {y \<in> set (model_years df). y \<le> 2023}))))
                [2024, 2025, 2026, 2027, 2028, 2029]"
    by (simp add: fm m forecast_years exp_growth_def mult.commute)
  ultimately show ?thesis
    using fit by blast
qed

lemma forecast_example:
  "forecast_future_registrations example_fit example_table =
     Inr [(Some 2024, Some 1), (Some 2025, Some 1), (Some 2026, Some 1),
          (Some 2027, Some 1), (Some 2028, Some 1), (Some 2029, Some 1)]"
proof -
  have f: "filtered_years example_table = [(2020, 1), (2021, 1)]"
    by code_simp
  show ?thesis
    by (simp add: forecast_future_registrations_def f x_data_def y_data_def index_min_def
        example_fit_def int16_def exp_growth_def forecast_years)
qed

theorem forecast_keys_and_values_witness:
  "isl (example_fit []) \<and>
   forecast_future_registrations example_fit example_table =
     Inr [(Some 2024, Some 1), (Some 2025, Some 1), (Some 2026, Some 1),
          (Some 2027, Some 1), (Some 2028, Some 1), (Some 2029, Some 1)] \<and>
   example_fit (zip (x_data (filtered_years example_table))
                    (y_data (filtered_years example_table))) = Inr (1, 0) \<and>
   model_years example_table = [2020, 2021, 2024]"
proof -
  have e: "isl (example_fit [])"
    by (simp add: example_fit_def)
  have f: "filtered_years example_table = [(2020, 1), (2021, 1)]"
    by code_simp
  have "model_years example_table = [2020, 2021, 2024]"
    by code_simp
  moreover have "example_fit (zip (x_data (filtered_years example_table))
                    (y_data (filtered_years example_table))) = Inr (1, 0)"
    by (simp add: f x_data_def y_data_def index_min_def example_fit_def)
  ultimately show ?thesis
    using e forecast_example forecast_keys_and_values [OF e forecast_example] by simp
qed

subsection \<open>Failures\<close>

text \<open>
  C3. With a \<open>curve_fit\<close> that rejects a sample of fewer than two points, a table with
  fewer than 2 distinct model years up to 2023 makes the forecast raise, and the
  exception ends \<open>main\<close> before any chart is written: there is no default forecast.
\<close>

theorem forecast_fails_below_two_years:
  assumes "\<forall>s. length s < 2 \<longrightarrow> isl (curve_fit ev s)"
    and "card {y \<in> set (model_years df). y \<le> 2023} < 2"
    and "path_exists ev (project_root ev @ ''/input'')"
    and "load_data (read_csv ev) (project_root ev @ ''/input/ev_data.csv'') = (Some df, lines)"
  shows "\<exists>e. forecast_future_registrations (curve_fit ev) df = Inl e \<and>
             main ev w = (Some e, snd (alloc (Frame df) (w\<lparr>log := log w @ lines\<rparr>))) \<and>
             saved (snd (main ev w)) = saved w"
proof -
  let ?s = "zip (x_data (filtered_years df)) (y_data (filtered_years df))"
  have "length ?s < 2"
    using assms(2) by (simp only: length_sample length_filtered_years)
  with assms(1) have "isl (curve_fit ev ?s)"
    by blast
  then obtain e where e: "curve_fit ev ?s = Inl e"
    by (cases "curve_fit ev ?s") auto
  then have f: "forecast_future_registrations (curve_fit ev) df = Inl e"
    by (simp add: forecast_future_registrations_def)
  have m: "main ev w = (Some e, snd (alloc (Frame df) (w\<lparr>log := log w @ lines\<rparr>)))"
    using assms(3,4) f by (simp add: main_def Let_def alloc_def)
  have "saved (snd (main ev w)) = saved w"
    by (simp add: m alloc_def)
  with f m show ?thesis by blast
qed

lemma load_single:
  "load_data (\<lambda>p. Inr example_single) p =
     (Some example_single, [Info_loaded p 1 8, Info_dropped 1, Info_filtered 1])"
  by (simp add: load_data_def example_single_def example_row_def
      reset_index_def dropna_def state_eq_def isnull_def len_def)

theorem forecast_fails_below_two_years_witness:
  "model_years example_single = [2020] \<and>
   forecast_future_registrations example_fit example_single = Inl TypeError \<and>
   fst (main (example_env (Inr example_single)) example_world) = Some TypeError \<and>
   saved (snd (main (example_env (Inr example_single)) example_world)) = []"
proof -
  let ?ev = "example_env (Inr example_single)"
  have y: "model_years example_single = [2020]"
    by code_simp
  have a1: "\<forall>s. length s < 2 \<longrightarrow> isl (curve_fit ?ev s)"
    by (simp add: example_env_def example_fit_def)
  have a2: "card {y \<in> set (model_years example_single). y \<le> 2023} < 2"
  proof -
    have "{y \<in> set (model_years example_single). y \<le> 2023} = {2020}"
      by (auto simp: y)
    then show ?thesis by simp
  qed
  have a3: "path_exists ?ev (project_root ?ev @ ''/input'')"
    by (simp add: example_env_def)
  have a4: "load_data (read_csv ?ev) (project_root ?ev @ ''/input/ev_data.csv'') =
      (Some example_single, [Info_loaded ''/ev/input/ev_data.csv'' 1 8, Info_dropped 1, Info_filtered 1])"
    by (simp add: example_env_def load_single)
  have f: "forecast_future_registrations example_fit example_single = Inl TypeError"
  proof -
    have "filtered_years example_single = [(2020, 1)]"
      by code_simp
    then show ?thesis
      by (simp add: forecast_future_registrations_def x_data_def y_data_def index_min_def
          example_fit_def)
  qed
  have c: "curve_fit ?ev = example_fit"
    by (simp add: example_env_def)
  show ?thesis
    using y f forecast_fails_below_two_years [OF a1 a2 a3 a4, of example_world]
    by (auto simp: c example_world_def)
qed

text \<open>
  C4. When reading the file fails, \<open>load_data\<close> logs the error and returns \<open>None\<close>, and
  \<open>main\<close> returns normally having done nothing else: no object is made, no forecast is
  printed and no chart is saved.
\<close>

theorem load_failure_stops_run:
  assumes "read_csv ev (project_root ev @ ''/input/ev_data.csv'') = Inl e"
    and "path_exists ev (project_root ev @ ''/input'')"
  shows "load_data (read_csv ev) (project_root ev @ ''/input/ev_data.csv'') =
           (None, [Error_loading e]) \<and>
         main ev w = (None, w\<lparr>log := log w @ [Error_loading e]\<rparr>)"
  using assms by (simp add: load_data_def main_def)

theorem load_failure_stops_run_witness:
  "read_csv (example_env (Inl FileNotFoundError)) ''/ev/input/ev_data.csv'' = Inl FileNotFoundError \<and>
   main (example_env (Inl FileNotFoundError)) example_world =
     (None, \<lparr>heap = [], clock = 0, saved = [], log = [Error_loading FileNotFoundError]\<rparr>)"
proof -
  let ?ev = "example_env (Inl FileNotFoundError)"
  have a1: "read_csv ?ev (project_root ?ev @ ''/input/ev_data.csv'') = Inl FileNotFoundError"
    by (simp add: example_env_def)
  have a2: "path_exists ?ev (project_root ?ev @ ''/input'')"
    by (simp add: example_env_def)
  show ?thesis
    using load_failure_stops_run [OF a1 a2, of example_world]
    by (simp add: example_env_def example_world_def)
qed

subsection \<open>The effects of the charts\<close>

lemma relabel_second: "c2 \<noteq> c1 \<Longrightarrow> relabel c2 c1 c2 display_label t = shorten t"
  by (simp add: relabel_def shorten_def)

lemma plot_top_cities_eq:
  "plot_top_cities rt file part w =
     w\<lparr>heap := heap w @ [Count_table Col_County Col_City
                            (shorten (ev_city_distribution_top_counties part))],
       saved := saved w @ [(file, Barh_cities (Count_table Col_County Col_City
                            (shorten (ev_city_distribution_top_counties part))))],
       clock := clock w + rt file,
       log := log w @ [Info_saved file]\<rparr>"
  by (simp add: plot_top_cities_def alloc_def setitem_def savefig_def relabel_second)

lemma plot_top_models_eq:
  "plot_top_models rt file part w =
     w\<lparr>heap := heap w @ [Count_table Col_Make Col_Model (ev_model_distribution_top_makes part),
                         Count_table Col_Make Col_Model
                           (shorten (head 5 (ev_model_distribution_top_makes part)))],
       saved := saved w @ [(file, Barh_models (Count_table Col_Make Col_Model
                           (shorten (head 5 (ev_model_distribution_top_makes part)))))],
       clock := clock w + rt file,
       log := log w @ [Info_saved file]\<rparr>"
  by (simp add: plot_top_models_def alloc_def setitem_def savefig_def relabel_second
      nth_append)

lemma plot_top_range_eq:
  "plot_top_range rt file part w =
     w\<lparr>heap := heap w @ [Range_table Col_Make Col_Model (average_range_by_model part),
                         Range_table Col_Make Col_Model
                           (shorten (head 5 (average_range_by_model part)))],
       saved := saved w @ [(file, Barh_range_models (Range_table Col_Make Col_Model
                           (shorten (head 5 (average_range_by_model part)))))],
       clock := clock w + rt file,
       log := log w @ [Info_saved file]\<rparr>"
  by (simp add: plot_top_range_def alloc_def setitem_def savefig_def relabel_second
      nth_append)

lemma frame_at_append:
  "frame_at w a = Inr df \<Longrightarrow> frame_at (w\<lparr>heap := heap w @ obs\<rparr>) a = Inr df"
  by (auto simp: frame_at_def nth_append split: if_splits)

lemma frame_at_heap: "heap w' = heap w \<Longrightarrow> frame_at w' a = frame_at w a"
  by (simp add: frame_at_def)

lemma plot_all_charts_eq:
  assumes "frame_at w a = Inr df"
  shows "plot_all_charts sf rt a fm output_prefix w =
           plot_forecast rt (chart_file output_prefix ''ev_market_forecast'' (sf (clock w))) a fm
             (before_forecast rt df output_prefix (sf (clock w)) w)"
proof -
  let ?ts = "sf (clock w)"
  let ?w1 = "savefig rt (chart_file output_prefix ''ev_adoption_over_time'' ?ts)
               (Bar_adoption (ev_adoption_by_year df)) w"
  let ?w2 = "plot_top_cities rt (chart_file output_prefix ''top_cities_in_top_counties'' ?ts)
               (top_counties_data df) ?w1"
  let ?w3 = "savefig rt (chart_file output_prefix ''ev_type_distribution'' ?ts)
               (Barh_types (ev_type_distribution df)) ?w2"
  let ?w4 = "savefig rt (chart_file output_prefix ''top_5_makes'' ?ts)
               (Barh_makes (ev_make_distribution df)) ?w3"
  let ?w5 = "plot_top_models rt (chart_file output_prefix ''top_models_in_top_makes'' ?ts)
               (top_makes_data df) ?w4"
  let ?w6 = "savefig rt (chart_file output_prefix ''average_range_by_year'' ?ts)
               (Line_range_by_year (mean_range (groupby_year df))) ?w5"
  let ?w7 = "plot_top_range rt (chart_file output_prefix ''top_models_by_range'' ?ts)
               (top_makes_data df) ?w6"
  have h5: "heap ?w5 = heap w @ take 3 (derived_objects df)"
    by (simp add: plot_top_models_eq plot_top_cities_eq savefig_def derived_objects_def)
  have "frame_at ?w5 a = Inr df"
    using assms by (auto simp: frame_at_def h5 nth_append split: if_splits)
  then have six: "plot_average_range rt (chart_file output_prefix ''average_range_by_year'' ?ts) a ?w5
      = (None, ?w6)"
    by (simp add: plot_average_range_def)
  have seven: "?w7 = before_forecast rt df output_prefix ?ts w"
    by (simp add: plot_top_range_eq plot_top_models_eq plot_top_cities_eq savefig_def
        before_forecast_def derived_objects_def first_charts_def)
  have "plot_all_charts sf rt a fm output_prefix w =
          plot_forecast rt (chart_file output_prefix ''ev_market_forecast'' ?ts) a fm ?w7"
    using assms by (simp add: plot_all_charts_def Let_def six)
  then show ?thesis
    by (simp only: seven)
qed

lemma plot_forecast_eq:
  assumes "frame_at w a = Inr df"
  shows "plot_forecast rt file a fm w =
     (case index_min (filtered_years df) of
        None \<Rightarrow> (Some ValueError, w)
      | Some m \<Rightarrow>
          (case those (map (\<lambda>year. map_of fm (Some year)) [2024..2029]) of
             None \<Rightarrow> (Some KeyError, w)
           | Some vs \<Rightarrow>
               (None, savefig rt file
                        (Line_forecast (filtered_years df) (zip [2024..2029] vs)) w)))"
  using assms by (simp add: plot_forecast_def Let_def)

lemma heap_plot_forecast: "heap (snd (plot_forecast rt file a fm w)) = heap w"
  by (auto simp: plot_forecast_def savefig_def Let_def split: sum.splits option.splits)

lemma names_plot_forecast:
  "map fst (saved (snd (plot_forecast rt file a fm w))) =
     map fst (saved w) @ (if fst (plot_forecast rt file a fm w) = None then [file] else [])"
  by (auto simp: plot_forecast_def savefig_def Let_def split: sum.splits option.splits)

lemma heap_plot_all_charts:
  "heap (snd (plot_all_charts sf rt a fm output_prefix w)) =
     heap w @ (case frame_at w a of Inl e \<Rightarrow> [] | Inr df \<Rightarrow> derived_objects df)"
proof (cases "frame_at w a")
  case (Inl e)
  then show ?thesis by (simp add: plot_all_charts_def)
next
  case (Inr df)
  then show ?thesis
    by (simp add: plot_all_charts_eq heap_plot_forecast before_forecast_def)
qed

text \<open>
  C9. The table is an object of the heap, and \<open>plot_all_charts\<close> leaves it as it was:
  the columns it assigns to belong to the objects it has made itself. The forecast only
  reads the table. So after \<open>main\<close> has loaded a table, whatever follows, the table is
  still the one \<open>load_data\<close> returned.
\<close>

theorem table_unchanged:
  "(a < length (heap w) \<longrightarrow>
      heap (snd (plot_all_charts sf rt a fm output_prefix w)) ! a = heap w ! a) \<and>
   (path_exists ev (project_root ev @ ''/input'') \<and>
    load_data (read_csv ev) (project_root ev @ ''/input/ev_data.csv'') = (Some df, lines) \<longrightarrow>
      heap (snd (main ev w)) ! length (heap w) = Frame df)"
proof -
  have one: "heap (snd (plot_all_charts sf rt a fm output_prefix w)) ! a = heap w ! a"
    if "a < length (heap w)" for sf rt a fm output_prefix w
    using that by (simp add: heap_plot_all_charts nth_append)
  have two: "heap (snd (main ev w)) ! length (heap w) = Frame df"
    if p: "path_exists ev (project_root ev @ ''/input'')"
      and l: "load_data (read_csv ev) (project_root ev @ ''/input/ev_data.csv'') = (Some df, lines)"
  proof (cases "forecast_future_registrations (curve_fit ev) df")
    case (Inl e)
    then show ?thesis
      using p l by (simp add: main_def alloc_def)
  next
    case (Inr forecasted_evs)
    let ?w2 = "(w\<lparr>log := log w @ lines, heap := heap w @ [Frame df],
                  log := log w @ lines @ [Print_forecast]\<rparr>)"
    have "main ev w = plot_all_charts (strftime ev) (render_time ev) (length (heap w))
                        forecasted_evs ((project_root ev @ ''/output'') @ ''/ev_data'') ?w2"
      using p l Inr by (simp add: main_def alloc_def)
    moreover have "length (heap w) < length (heap ?w2)"
      by simp
    ultimately show ?thesis
      using one [of "length (heap w)" ?w2] by simp
  qed
  from one two show ?thesis by blast
qed


lemma frame_at_before_forecast:
  "frame_at w a = Inr df \<Longrightarrow> frame_at (before_forecast rt df' output_prefix ts w) a = Inr df"
  by (auto simp: frame_at_def before_forecast_def nth_append split: if_splits)

lemma plot_all_charts_done:
  assumes "frame_at w a = Inr df"
    and "index_min (filtered_years df) = Some m"
    and "those (map (\<lambda>year. map_of fm (Some year)) [2024..2029]) = Some vs"
  shows "plot_all_charts sf rt a fm output_prefix w =
           (None, savefig rt (chart_file output_prefix ''ev_market_forecast'' (sf (clock w)))
                    (Line_forecast (filtered_years df) (zip [2024..2029] vs))
                    (before_forecast rt df output_prefix (sf (clock w)) w))"
  using assms
  by (simp add: plot_all_charts_eq plot_forecast_eq [OF frame_at_before_forecast])

lemma filtered_years_example: "filtered_years example_table = [(2020, 1), (2021, 1)]"
  by code_simp

lemma main_example:
  "main (example_env (Inr example_csv)) example_world =
     (None, savefig (\<lambda>f. 1) (chart_file ''/ev/output/ev_data'' ''ev_market_forecast'' ''20241231_235959'')
              (Line_forecast [(2020, 1), (2021, 1)]
                 [(2024, Some 1), (2025, Some 1), (2026, Some 1), (2027, Some 1),
                  (2028, Some 1), (2029, Some 1)])
              (before_forecast (\<lambda>f. 1) example_table ''/ev/output/ev_data'' ''20241231_235959''
                 example_loaded))"
proof -
  let ?ev = "example_env (Inr example_csv)"
  let ?fm = "[(Some 2024, Some 1), (Some 2025, Some 1), (Some 2026, Some 1),
          (Some 2027, Some 1), (Some 2028, Some 1), (Some 2029, Some (1::real))]"
  have l: "load_data (\<lambda>p. Inr example_csv) ''/ev/input/ev_data.csv'' =
     (Some example_table,
      [Info_loaded ''/ev/input/ev_data.csv'' 5 8, Info_dropped 4, Info_filtered 3])"
    by (simp add: load_data_def example_csv_def example_table_def
        example_row_def reset_index_def dropna_def state_eq_def isnull_def len_def upt_conv_Cons)
  have m: "main ?ev example_world =
      plot_all_charts example_strftime (\<lambda>f. 1) 0 ?fm ''/ev/output/ev_data'' example_loaded"
    by (simp add: main_def example_env_def l forecast_example alloc_def example_world_def
        example_loaded_def)
  have f: "frame_at example_loaded 0 = Inr example_table"
    by (simp add: frame_at_def example_loaded_def)
  have i: "index_min (filtered_years example_table) = Some 2020"
    by (simp add: filtered_years_example index_min_def)
  have t: "those (map (\<lambda>year. map_of ?fm (Some year)) [2024..2029]) =
      Some [Some 1, Some 1, Some 1, Some 1, Some 1, Some 1]"
    by (simp add: forecast_years)
  have c: "example_strftime (clock example_loaded) = ''20241231_235959''"
    by (simp add: example_strftime_def example_loaded_def)
  show ?thesis
    unfolding m plot_all_charts_done [OF f i t] c
    by (simp add: filtered_years_example forecast_years)
qed

lemma main_example_facts:
  "fst (main (example_env (Inr example_csv)) example_world) = None"
  "length (saved (snd (main (example_env (Inr example_csv)) example_world))) = 8"
  "length (heap (snd (main (example_env (Inr example_csv)) example_world))) = 6"
  "clock (snd (main (example_env (Inr example_csv)) example_world)) = 8"
  by (simp_all add: main_example savefig_def before_forecast_def first_charts_def
      derived_objects_def example_loaded_def)

theorem table_unchanged_witness:
  "path_exists (example_env (Inr example_csv)) ''/ev/input'' \<and>
   load_data (read_csv (example_env (Inr example_csv))) ''/ev/input/ev_data.csv'' =
     (Some example_table,
      [Info_loaded ''/ev/input/ev_data.csv'' 5 8, Info_dropped 4, Info_filtered 3]) \<and>
   heap (snd (main (example_env (Inr example_csv)) example_world)) ! 0 = Frame example_table \<and>
   fst (main (example_env (Inr example_csv)) example_world) = None \<and>
   length (heap (snd (main (example_env (Inr example_csv)) example_world))) = 6 \<and>
   length (saved (snd (main (example_env (Inr example_csv)) example_world))) = 8"
proof -
  let ?ev = "example_env (Inr example_csv)"
  have p: "path_exists ?ev (project_root ?ev @ ''/input'')"
    by (simp add: example_env_def)
  have l: "load_data (read_csv ?ev) (project_root ?ev @ ''/input/ev_data.csv'') =
     (Some example_table,
      [Info_loaded ''/ev/input/ev_data.csv'' 5 8, Info_dropped 4, Info_filtered 3])"
    by (simp add: example_env_def load_data_def example_csv_def example_table_def
        example_row_def reset_index_def dropna_def state_eq_def isnull_def len_def upt_conv_Cons)
  have h: "length (heap example_world) = 0"
    by (simp add: example_world_def)
  have r: "project_root ?ev = ''/ev''"
    by (simp add: example_env_def)
  from table_unchanged [where w = example_world and ev = ?ev and df = example_table and
      lines = "[Info_loaded ''/ev/input/ev_data.csv'' 5 8, Info_dropped 4, Info_filtered 3]"]
  have "heap (snd (main ?ev example_world)) ! 0 = Frame example_table"
    using p l h by simp
  then show ?thesis
    using p l main_example_facts by (simp add: r)
qed

subsection \<open>File names and labels\<close>

lemma names_first_charts:
  "map fst (first_charts df output_prefix ts) =
     take 7 (map (\<lambda>slug. chart_file output_prefix slug ts) chart_slugs)"
  by (simp add: first_charts_def chart_slugs_def)

lemma all_names:
  "map (\<lambda>slug. chart_file output_prefix slug ts) chart_slugs =
     take 7 (map (\<lambda>slug. chart_file output_prefix slug ts) chart_slugs)
     @ [chart_file output_prefix ''ev_market_forecast'' ts]"
  by (simp add: chart_slugs_def)

text \<open>
  C10. The time is read once, when \<open>plot_all_charts\<close> starts. The files it saves are
  named, in order, by the eight slugs with the stamp of that time, all eight when it
  ends without an exception; the names differ in the slug only, however long the
  rendering takes.
\<close>

theorem one_timestamp:
  "map fst (saved (snd (plot_all_charts sf rt a fm output_prefix w))) =
     map fst (saved w) @
     take (case fst (plot_all_charts sf rt a fm output_prefix w) of
             None \<Rightarrow> 8
           | Some e \<Rightarrow> (case frame_at w a of Inl e' \<Rightarrow> 0 | Inr df \<Rightarrow> 7))
       (map (\<lambda>slug. chart_file output_prefix slug (sf (clock w))) chart_slugs)"
proof (cases "frame_at w a")
  case (Inl e)
  then show ?thesis
    by (simp add: plot_all_charts_def)
next
  case (Inr df)
  let ?ts = "sf (clock w)"
  let ?names = "map (\<lambda>slug. chart_file output_prefix slug ?ts) chart_slugs"
  let ?r = "plot_all_charts sf rt a fm output_prefix w"
  have r: "?r = plot_forecast rt (chart_file output_prefix ''ev_market_forecast'' ?ts) a fm
             (before_forecast rt df output_prefix ?ts w)"
    using Inr by (rule plot_all_charts_eq)
  have n: "map fst (saved (snd ?r)) =
      (map fst (saved w) @ take 7 ?names) @
      (if fst ?r = None then [chart_file output_prefix ''ev_market_forecast'' ?ts] else [])"
    unfolding r names_plot_forecast
    by (simp add: before_forecast_def names_first_charts)
  have l: "length ?names = 8"
    by (simp add: chart_slugs_def)
  show ?thesis
  proof (cases "fst ?r")
    case None
    then have "map fst (saved (snd ?r)) = map fst (saved w) @ ?names"
      using n all_names [of output_prefix ?ts] by simp
    then show ?thesis
      using None l by simp
  next
    case (Some e)
    then show ?thesis
      using n Inr by simp
  qed
qed

theorem one_timestamp_witness:
  "map fst (saved (snd (main (example_env (Inr example_csv)) example_world))) =
     [''/ev/output/ev_data_ev_adoption_over_time_20241231_235959.png'',
      ''/ev/output/ev_data_top_cities_in_top_counties_20241231_235959.png'',
      ''/ev/output/ev_data_ev_type_distribution_20241231_235959.png'',
      ''/ev/output/ev_data_top_5_makes_20241231_235959.png'',
      ''/ev/output/ev_data_top_models_in_top_makes_20241231_235959.png'',
      ''/ev/output/ev_data_average_range_by_year_20241231_235959.png'',
      ''/ev/output/ev_data_top_models_by_range_20241231_235959.png'',
      ''/ev/output/ev_data_ev_market_forecast_20241231_235959.png''] \<and>
   clock (snd (main (example_env (Inr example_csv)) example_world)) = 8 \<and>
   example_strftime 8 = ''20250101_000000''"
proof -
  let ?fm = "[(Some 2024, Some 1), (Some 2025, Some 1), (Some 2026, Some 1),
          (Some 2027, Some 1), (Some 2028, Some 1), (Some 2029, Some (1::real))]"
  let ?r = "plot_all_charts example_strftime (\<lambda>f. 1) 0 ?fm ''/ev/output/ev_data'' example_loaded"
  have "load_data (\<lambda>p. Inr example_csv) ''/ev/input/ev_data.csv'' =
     (Some example_table,
      [Info_loaded ''/ev/input/ev_data.csv'' 5 8, Info_dropped 4, Info_filtered 3])"
    by (simp add: load_data_def example_csv_def example_table_def
        example_row_def reset_index_def dropna_def state_eq_def isnull_def len_def upt_conv_Cons)
  then have m: "main (example_env (Inr example_csv)) example_world = ?r"
    by (simp add: main_def example_env_def forecast_example alloc_def
        example_world_def example_loaded_def)
  have ok: "fst ?r = None"
    using main_example_facts(1) by (simp only: m)
  have "map fst (saved (snd ?r)) =
     map fst (saved example_loaded) @
     take 8 (map (\<lambda>slug. chart_file ''/ev/output/ev_data'' slug
                (example_strftime (clock example_loaded))) chart_slugs)"
    using one_timestamp [of example_strftime "\<lambda>f. 1" 0 ?fm "''/ev/output/ev_data''" example_loaded]
    by (simp only: ok option.case)
  then have "map fst (saved (snd ?r)) =
     map (\<lambda>slug. chart_file ''/ev/output/ev_data'' slug ''20241231_235959'') chart_slugs"
    by (simp add: example_loaded_def example_strftime_def chart_slugs_def)
  then show ?thesis
    using main_example_facts(4)
    by (simp add: m chart_slugs_def chart_file_def example_strftime_def)
qed

lemma saved_plot_forecast: "\<exists>rest. saved (snd (plot_forecast rt file a fm w)) = saved w @ rest"
  by (auto simp: plot_forecast_def savefig_def Let_def split: sum.splits option.splits)

lemma saved_plot_all_charts:
  assumes "frame_at w a = Inr df"
  shows "\<exists>rest. saved (snd (plot_all_charts sf rt a fm output_prefix w)) =
           saved w @ first_charts df output_prefix (sf (clock w)) @ rest"
proof -
  let ?w7 = "before_forecast rt df output_prefix (sf (clock w)) w"
  obtain rest where "saved (snd (plot_forecast rt
      (chart_file output_prefix ''ev_market_forecast'' (sf (clock w))) a fm ?w7)) = saved ?w7 @ rest"
    using saved_plot_forecast by blast
  then show ?thesis
    by (simp add: plot_all_charts_eq [OF assms] before_forecast_def)
qed

lemma charts_first_charts:
  "map snd (first_charts df output_prefix ts) =
     [Bar_adoption (ev_adoption_by_year df),
      Barh_cities (Count_table Col_County Col_City
        (map (\<lambda>((county, city), n). ((county, display_label city), n))
           (ev_city_distribution_top_counties (top_counties_data df)))),
      Barh_types (ev_type_distribution df),
      Barh_makes (ev_make_distribution df),
      Barh_models (Count_table Col_Make Col_Model
        (map (\<lambda>((make, model), n). ((make, display_label model), n))
           (head 5 (ev_model_distribution_top_makes (top_makes_data df))))),
      Line_range_by_year (mean_range (groupby_year df)),
      Barh_range_models (Range_table Col_Make Col_Model
        (map (\<lambda>((make, model), v). ((make, display_label model), v))
           (head 5 (average_range_by_model (top_makes_data df)))))]"
  by (simp add: first_charts_def derived_objects_def shorten_def)

lemma nth_saved_plot_all_charts:
  assumes "frame_at w a = Inr df" and "i < 7"
  shows "snd (saved (snd (plot_all_charts sf rt a fm output_prefix w)) ! (length (saved w) + i)) =
         map snd (first_charts df output_prefix (sf (clock w))) ! i"
proof -
  obtain rest where "saved (snd (plot_all_charts sf rt a fm output_prefix w)) =
           saved w @ first_charts df output_prefix (sf (clock w)) @ rest"
    using saved_plot_all_charts [OF assms(1)] by blast
  moreover have "length (first_charts df output_prefix (sf (clock w))) = 7"
    by (simp add: first_charts_def)
  ultimately show ?thesis
    using assms(2) by (simp add: nth_append)
qed

lemma labels_value_counts: "mset (map fst (value_counts df c)) = mset (categories df c)"
proof -
  have "mset (map fst (value_counts df c)) = mset (map fst (category_counts df c))"
    by (metis mset_map mset_sort_values_desc value_counts_def)
  moreover have "map fst (category_counts df c) = categories df c"
    by (simp add: category_counts_def comp_def)
  ultimately show ?thesis by simp
qed

lemma long_charts:
  "ev_type_distribution example_long = [(''Battery Electric Vehicle (BEV)'', 1)]"
  "ev_make_distribution example_long = [(''MERCEDES-BENZ'', 1)]"
  "ev_adoption_by_year example_long = [(2020, 1)]"
  "ev_city_distribution_top_counties (top_counties_data example_long) =
     [((''Snohomish'', ''Mountlake Terrace''), 1)]"
  "head 5 (ev_model_distribution_top_makes (top_makes_data example_long)) =
     [((''MERCEDES-BENZ'', ''EQS-CLASS SEDAN''), 1)]"
  "head 5 (average_range_by_model (top_makes_data example_long)) =
     [((''MERCEDES-BENZ'', ''EQS-CLASS SEDAN''), Some 220)]"
  "mean_range (groupby_year example_long) = [(2020, Some 220)]"
  by code_simp+

lemma frame_long: "frame_at example_long_world 0 = Inr example_long"
  by (simp add: frame_at_def example_long_world_def)

text \<open>
  The charts of the vehicle types and of the top 5 makes are horizontal bars too, and
  they show a label of more than 12 characters in full.
\<close>

theorem raw_labels_counterexample:
  "snd (saved (snd (plot_all_charts example_strftime (\<lambda>f. 1) 0 [] ''out'' example_long_world)) ! 2)
     = Barh_types [(''Battery Electric Vehicle (BEV)'', 1)] \<and>
   snd (saved (snd (plot_all_charts example_strftime (\<lambda>f. 1) 0 [] ''out'' example_long_world)) ! 3)
     = Barh_makes [(''MERCEDES-BENZ'', 1)] \<and>
   12 < length ''Battery Electric Vehicle (BEV)'' \<and>
   ''Battery Electric Vehicle (BEV)'' \<noteq> take 12 ''Battery Electric Vehicle (BEV)'' @ ''...'' \<and>
   12 < length ''MERCEDES-BENZ'' \<and>
   ''MERCEDES-BENZ'' \<noteq> take 12 ''MERCEDES-BENZ'' @ ''...''"
proof -
  let ?saved = "saved (snd (plot_all_charts example_strftime (\<lambda>f. 1) 0 [] ''out''
                              example_long_world))"
  let ?first = "map snd (first_charts example_long ''out''
                           (example_strftime (clock example_long_world)))"
  have s: "length (saved example_long_world) = 0"
    by (simp add: example_long_world_def)
  have "snd (?saved ! (length (saved example_long_world) + 2)) = ?first ! 2"
    by (rule nth_saved_plot_all_charts [OF frame_long]) simp
  moreover have "?first ! 2 = Barh_types (ev_type_distribution example_long)"
    by (simp add: charts_first_charts)
  ultimately have types: "snd (?saved ! 2) = Barh_types [(''Battery Electric Vehicle (BEV)'', 1)]"
    by (simp only: s add_0 long_charts)
  have "snd (?saved ! (length (saved example_long_world) + 3)) = ?first ! 3"
    by (rule nth_saved_plot_all_charts [OF frame_long]) simp
  moreover have "?first ! 3 = Barh_makes (ev_make_distribution example_long)"
    by (simp add: charts_first_charts)
  ultimately have makes: "snd (?saved ! 3) = Barh_makes [(''MERCEDES-BENZ'', 1)]"
    by (simp only: s add_0 long_charts)
  from types makes show ?thesis by simp
qed

text \<open>
  C8, as the code has it: the label shown is the first 12 characters followed by \<open>...\<close>
  when the label is longer than 12 characters, and the label itself otherwise. It is
  what the charts of the top cities and of the top models, by count and by range, show
  for the city and for the model. The charts of the vehicle types and of the top 5
  makes, horizontal bars as well, show their labels as they are: the categories of the
  table.
\<close>

theorem label_shortening:
  "(12 < length x \<longrightarrow> display_label x = take 12 x @ ''...'') \<and>
   (length x \<le> 12 \<longrightarrow> display_label x = x) \<and>
   (frame_at w a = Inr df \<longrightarrow>
      (\<exists>rest. map snd (saved (snd (plot_all_charts sf rt a fm output_prefix w))) =
         map snd (saved w) @
         [Bar_adoption (ev_adoption_by_year df),
          Barh_cities (Count_table Col_County Col_City
            (map (\<lambda>((county, city), n). ((county, display_label city), n))
               (ev_city_distribution_top_counties (top_counties_data df)))),
          Barh_types (ev_type_distribution df),
          Barh_makes (ev_make_distribution df),
          Barh_models (Count_table Col_Make Col_Model
            (map (\<lambda>((make, model), n). ((make, display_label model), n))
               (head 5 (ev_model_distribution_top_makes (top_makes_data df))))),
          Line_range_by_year (mean_range (groupby_year df)),
          Barh_range_models (Range_table Col_Make Col_Model
            (map (\<lambda>((make, model), v). ((make, display_label model), v))
               (head 5 (average_range_by_model (top_makes_data df)))))] @ rest)) \<and>
   mset (map fst (ev_type_distribution df)) = mset (categories df Col_Type) \<and>
   mset (map fst (ev_make_distribution df)) \<subseteq># mset (categories df Col_Make)"
proof -
  have charts: "\<exists>rest. map snd (saved (snd (plot_all_charts sf rt a fm output_prefix w))) =
         map snd (saved w) @ map snd (first_charts df output_prefix (sf (clock w))) @ rest"
    if f: "frame_at w a = Inr df"
  proof -
    obtain rest where "saved (snd (plot_all_charts sf rt a fm output_prefix w)) =
           saved w @ first_charts df output_prefix (sf (clock w)) @ rest"
      using saved_plot_all_charts [OF f] by blast
    then have "map snd (saved (snd (plot_all_charts sf rt a fm output_prefix w))) =
         map snd (saved w) @ map snd (first_charts df output_prefix (sf (clock w))) @ map snd rest"
      by simp
    then show ?thesis by blast
  qed
  have types: "mset (map fst (ev_type_distribution df)) = mset (categories df Col_Type)"
    using labels_value_counts [of df Col_Type] by (simp add: ev_type_distribution_def)
  have "mset (head 5 (value_counts df Col_Make)) \<subseteq># mset (value_counts df Col_Make)"
    unfolding head_def by (metis append_take_drop_id mset_append mset_subset_eq_add_left)
  then have "image_mset fst (mset (head 5 (value_counts df Col_Make)))
        \<subseteq># image_mset fst (mset (value_counts df Col_Make))"
    by (rule image_mset_subseteq_mono)
  then have makes: "mset (map fst (ev_make_distribution df)) \<subseteq># mset (categories df Col_Make)"
    using labels_value_counts [of df Col_Make] by (simp add: ev_make_distribution_def)
  show ?thesis
    using charts types makes
    by (simp add: display_label_def charts_first_charts)
qed

theorem label_shortening_witness:
  "frame_at example_long_world 0 = Inr example_long \<and>
   display_label ''Mountlake Terrace'' = ''Mountlake Te...'' \<and>
   display_label ''Indianapolis'' = ''Indianapolis'' \<and>
   (\<exists>rest. map snd (saved (snd (plot_all_charts example_strftime (\<lambda>f. 1) 0 [] ''out''
                                  example_long_world))) =
      [Bar_adoption [(2020, 1)],
       Barh_cities (Count_table Col_County Col_City [((''Snohomish'', ''Mountlake Te...''), 1)]),
       Barh_types [(''Battery Electric Vehicle (BEV)'', 1)],
       Barh_makes [(''MERCEDES-BENZ'', 1)],
       Barh_models (Count_table Col_Make Col_Model
         [((''MERCEDES-BENZ'', ''EQS-CLASS SE...''), 1)]),
       Line_range_by_year [(2020, Some 220)],
       Barh_range_models (Range_table Col_Make Col_Model
         [((''MERCEDES-BENZ'', ''EQS-CLASS SE...''), Some 220)])] @ rest)"
proof -
  have l: "12 < length ''Mountlake Terrace''" "length ''Indianapolis'' \<le> 12"
    by simp_all
  have s: "saved example_long_world = []"
    by (simp add: example_long_world_def)
  show ?thesis
    using frame_long l
      label_shortening [of "''Mountlake Terrace''" example_long_world 0 example_long
        example_strftime "\<lambda>f. 1" "[]" "''out''"]
      label_shortening [of "''Indianapolis''"]
    by (simp add: s long_charts display_label_def)
qed


subsection \<open>The years used by the fit and by the forecast chart\<close>

lemma model_years_up_to_cutoff:
  "model_years (up_to_cutoff df) = filter (\<lambda>y. y \<le> 2023) (model_years df)"
proof -
  have "List.map_filter (\<lambda>(i, r). Model_Year r)
          (filter (\<lambda>(i, r). case Model_Year r of None \<Rightarrow> False | Some y \<Rightarrow> y \<le> 2023) xs) =
        filter (\<lambda>y. y \<le> 2023) (List.map_filter (\<lambda>(i, r). Model_Year r) xs)" for xs :: "(nat \<times> row) list"
    by (induction xs) (auto split: option.splits)
  then show ?thesis
    by (simp add: model_years_def up_to_cutoff_def)
qed

lemma filtered_years_up_to_cutoff: "filtered_years (up_to_cutoff df) = filtered_years df"
proof -
  let ?ys = "model_years df"
  let ?P = "\<lambda>y::int. y \<le> 2023"
  have s: "{y \<in> set (filter ?P ?ys). y \<le> 2023} = {y \<in> set ?ys. y \<le> 2023}"
    by auto
  have "map (\<lambda>y. (y, count_list (filter ?P ?ys) y)) (sorted_list_of_set {y \<in> set ?ys. y \<le> 2023}) =
        map (\<lambda>y. (y, count_list ?ys y)) (sorted_list_of_set {y \<in> set ?ys. y \<le> 2023})"
    by (rule map_cong) (auto simp: count_list_filter)
  then show ?thesis
    by (simp only: filtered_years_eq model_years_up_to_cutoff s)
qed

lemma forecast_by_filtered_years:
  "filtered_years df' = filtered_years df \<Longrightarrow>
   forecast_future_registrations cf df' = forecast_future_registrations cf df"
  by (simp add: forecast_future_registrations_def)

lemma x_data_eq:
  "x_data (filtered_years df) =
     map (\<lambda>(y, n). int16 (y - Min {y \<in> set (model_years df). y \<le> 2023})) (filtered_years df)"
proof (cases "filtered_years df = []")
  case True
  then show ?thesis
    by (simp add: x_data_def index_min_def)
next
  case False
  then have "{y \<in> set (model_years df). y \<le> 2023} \<noteq> {}"
    using length_filtered_years [of df] by (metis card.empty length_0_conv)
  then have "index_min (filtered_years df) =
      Some (Min {y \<in> set (model_years df). y \<le> 2023})"
    by (simp only: index_min_filtered_years if_False)
  then show ?thesis
    by (simp add: x_data_def)
qed

lemma x_data_plain:
  assumes "\<forall>y \<in> set (model_years df). y \<le> 2023 \<longrightarrow>
             y - Min {y \<in> set (model_years df). y \<le> 2023} < 32768"
  shows "x_data (filtered_years df) =
     map (\<lambda>(y, n). y - Min {y \<in> set (model_years df). y \<le> 2023}) (filtered_years df)"
proof -
  let ?S = "{y \<in> set (model_years df). y \<le> 2023}"
  have "int16 (y - Min ?S) = y - Min ?S" if "(y, n) \<in> set (filtered_years df)" for y n
  proof -
    from that have y: "y \<in> ?S"
      by (auto simp: filtered_years_eq)
    have "finite ?S" by simp
    then have "Min ?S \<le> y"
      using y by (rule Min_le)
    moreover have "y - Min ?S < 32768"
      using assms y by blast
    ultimately show ?thesis
      by (simp add: int16_id)
  qed
  then show ?thesis
    unfolding x_data_eq by (intro map_cong) auto
qed

text \<open>
  C6. The sample given to \<open>curve_fit\<close> has one point per distinct model year up to 2023
  and none for a later year: its count, at the offset of the year from the earliest of
  them (a 16-bit difference, the plain difference when it is below 32768). The forecast is the same as for the table without the rows
  of a later year. The line of actual registrations in the forecast chart is drawn from
  the same years and counts.
\<close>

theorem fit_and_chart_up_to_cutoff:
  "map fst (filtered_years df) = sorted_list_of_set {y \<in> set (model_years df). y \<le> 2023} \<and>
   (\<forall>(y, n) \<in> set (filtered_years df). y \<le> 2023 \<and> n = count_list (model_years df) y) \<and>
   x_data (filtered_years df) =
     map (\<lambda>(y, n). int16 (y - Min {y \<in> set (model_years df). y \<le> 2023})) (filtered_years df) \<and>
   ((\<forall>y \<in> set (model_years df). y \<le> 2023 \<longrightarrow>
        y - Min {y \<in> set (model_years df). y \<le> 2023} < 32768) \<longrightarrow>
    x_data (filtered_years df) =
      map (\<lambda>(y, n). y - Min {y \<in> set (model_years df). y \<le> 2023}) (filtered_years df)) \<and>
   y_data (filtered_years df) = map snd (filtered_years df) \<and>
   forecast_future_registrations cf df =
     (case cf (zip (x_data (filtered_years df)) (y_data (filtered_years df))) of
        Inl e \<Rightarrow> Inl e
      | Inr ab \<Rightarrow> forecast_future_registrations (\<lambda>s. Inr ab) df) \<and>
   forecast_future_registrations cf df = forecast_future_registrations cf (up_to_cutoff df) \<and>
   (frame_at w a = Inr df \<and> fst (plot_all_charts sf rt a fm output_prefix w) = None \<longrightarrow>
      (\<exists>vs. last (saved (snd (plot_all_charts sf rt a fm output_prefix w))) =
         (chart_file output_prefix ''ev_market_forecast'' (sf (clock w)),
          Line_forecast (filtered_years df) (zip [2024..2029] vs))))"
proof -
  have c2: "\<forall>(y, n) \<in> set (filtered_years df). y \<le> 2023 \<and> n = count_list (model_years df) y"
    by (auto simp: filtered_years_eq)
  have c5: "forecast_future_registrations cf df =
     (case cf (zip (x_data (filtered_years df)) (y_data (filtered_years df))) of
        Inl e \<Rightarrow> Inl e
      | Inr ab \<Rightarrow> forecast_future_registrations (\<lambda>s. Inr ab) df)"
    by (simp add: forecast_future_registrations_def split: sum.splits)
  have c6: "forecast_future_registrations cf df = forecast_future_registrations cf (up_to_cutoff df)"
    by (rule forecast_by_filtered_years [symmetric]) (rule filtered_years_up_to_cutoff)
  have c7: "\<exists>vs. last (saved (snd (plot_all_charts sf rt a fm output_prefix w))) =
         (chart_file output_prefix ''ev_market_forecast'' (sf (clock w)),
          Line_forecast (filtered_years df) (zip [2024..2029] vs))"
    if f: "frame_at w a = Inr df" and ok: "fst (plot_all_charts sf rt a fm output_prefix w) = None"
  proof -
    let ?w7 = "before_forecast rt df output_prefix (sf (clock w)) w"
    let ?file = "chart_file output_prefix ''ev_market_forecast'' (sf (clock w))"
    have r: "plot_all_charts sf rt a fm output_prefix w = plot_forecast rt ?file a fm ?w7"
      using f by (rule plot_all_charts_eq)
    have e: "plot_forecast rt ?file a fm ?w7 =
      (case index_min (filtered_years df) of
        None \<Rightarrow> (Some ValueError, ?w7)
      | Some m \<Rightarrow>
          (case those (map (\<lambda>year. map_of fm (Some year)) [2024..2029]) of
             None \<Rightarrow> (Some KeyError, ?w7)
           | Some vs \<Rightarrow>
               (None, savefig rt ?file
                        (Line_forecast (filtered_years df) (zip [2024..2029] vs)) ?w7)))"
      by (rule plot_forecast_eq [OF frame_at_before_forecast [OF f]])
    from ok obtain m vs where "index_min (filtered_years df) = Some m"
      "those (map (\<lambda>year. map_of fm (Some year)) [2024..2029]) = Some vs"
      unfolding r e by (auto split: option.splits)
    then have "plot_all_charts sf rt a fm output_prefix w =
        (None, savefig rt ?file (Line_forecast (filtered_years df) (zip [2024..2029] vs)) ?w7)"
      unfolding r e by simp
    then have "last (saved (snd (plot_all_charts sf rt a fm output_prefix w))) =
        (?file, Line_forecast (filtered_years df) (zip [2024..2029] vs))"
      by (simp add: savefig_def)
    then show ?thesis by blast
  qed
  show ?thesis
    using fst_filtered_years [of df] c2 x_data_eq [of df] x_data_plain [of df] c5 c6 c7
    unfolding y_data_def by blast
qed

theorem fit_and_chart_up_to_cutoff_witness:
  "model_years example_table = [2020, 2021, 2024] \<and>
   map fst (filtered_years example_table) = [2020, 2021] \<and>
   x_data (filtered_years example_table) = [0, 1] \<and>
   y_data (filtered_years example_table) = [1, 1] \<and>
   frame_at example_loaded 0 = Inr example_table \<and>
   fst (main (example_env (Inr example_csv)) example_world) = None \<and>
   (\<exists>vs. last (saved (snd (main (example_env (Inr example_csv)) example_world))) =
      (''/ev/output/ev_data_ev_market_forecast_20241231_235959.png'',
       Line_forecast [(2020, 1), (2021, 1)] (zip [2024..2029] vs)))"
proof -
  let ?fm = "[(Some 2024, Some 1), (Some 2025, Some 1), (Some 2026, Some 1),
          (Some 2027, Some 1), (Some 2028, Some 1), (Some 2029, Some (1::real))]"
  let ?r = "plot_all_charts example_strftime (\<lambda>f. 1) 0 ?fm ''/ev/output/ev_data'' example_loaded"
  have "load_data (\<lambda>p. Inr example_csv) ''/ev/input/ev_data.csv'' =
     (Some example_table,
      [Info_loaded ''/ev/input/ev_data.csv'' 5 8, Info_dropped 4, Info_filtered 3])"
    by (simp add: load_data_def example_csv_def example_table_def
        example_row_def reset_index_def dropna_def state_eq_def isnull_def len_def upt_conv_Cons)
  then have m: "main (example_env (Inr example_csv)) example_world = ?r"
    by (simp add: main_def example_env_def forecast_example alloc_def
        example_world_def example_loaded_def)
  have ok: "fst ?r = None"
    using main_example_facts(1) by (simp only: m)
  have f: "frame_at example_loaded 0 = Inr example_table"
    by (simp add: frame_at_def example_loaded_def)
  have y: "model_years example_table = [2020, 2021, 2024]"
    by code_simp
  have c: "chart_file ''/ev/output/ev_data'' ''ev_market_forecast''
             (example_strftime (clock example_loaded)) =
           ''/ev/output/ev_data_ev_market_forecast_20241231_235959.png''"
    by (simp add: chart_file_def example_strftime_def example_loaded_def)
  from fit_and_chart_up_to_cutoff [of example_table example_fit example_loaded 0
      example_strftime "\<lambda>f. 1" ?fm "''/ev/output/ev_data''"]
  have "\<exists>vs. last (saved (snd ?r)) =
      (chart_file ''/ev/output/ev_data'' ''ev_market_forecast''
         (example_strftime (clock example_loaded)),
       Line_forecast (filtered_years example_table) (zip [2024..2029] vs))"
    using f ok by blast
  then show ?thesis
    using y f ok
    by (simp add: m c filtered_years_example x_data_def y_data_def index_min_def int16_def)
qed

end
